theory Spec2Isabelle
  imports Complex_Main "HOL-Library.Log_Nat" "HOL-Library.Word"
begin

section \<open>Single-precision arithmetic of the C source\<close>

text \<open>
  The layout and the hit test of \<^verbatim>\<open>main.c\<close> compute in C \<^verbatim>\<open>float\<close>. A value of that
  type is modelled as a finite real (one of the binary32 numbers), an infinity or a NaN.
  Every arithmetic operation computes the exact result and rounds it to the nearest
  binary32 number, ties to even (the default rounding mode, each operation evaluated in
  the range and precision of \<^verbatim>\<open>float\<close>). The two zeros are identified: they compare equal and
  no operation of this program tells them apart.
\<close>

datatype float32 = Fin real | PInf | NInf | NaN

text \<open>Nearest integer, ties to the even neighbour.\<close>

definition rne :: "real \<Rightarrow> int" where
  "rne y = (let f = \<lfloor>y\<rfloor>; d = y - of_int f in
     if d < 1/2 then f else if 1/2 < d then f + 1 else if even f then f else f + 1)"

text \<open>
  A binary32 number is an integer multiple of \<open>2 ^ k / 2 ^ 149\<close> with a multiplier below
  \<open>2 ^ 24\<close>; \<open>k = 0\<close> is the spacing of the subnormal numbers. \<open>quantum x\<close> is the \<open>k\<close>
  of the binade of \<open>x\<close>: the bit length of \<open>\<bar>x\<bar> * 2 ^ 149\<close> less 24, and 0 below that.
\<close>

definition quantum :: "real \<Rightarrow> nat" where
  "quantum x = floorlog 2 (nat \<lfloor>\<bar>x\<bar> * 2 ^ 149\<rfloor>) - 24"

definition f32r :: "real \<Rightarrow> real" where
  "f32r x = of_int (rne (x * 2 ^ 149 / 2 ^ quantum x)) * 2 ^ quantum x / 2 ^ 149"

text \<open>Rounding overflows to an infinity when the rounded magnitude reaches \<open>2 ^ 128\<close>.\<close>

definition round32 :: "real \<Rightarrow> float32" where
  "round32 x = (let r = f32r x in
     if 2 ^ 128 \<le> \<bar>r\<bar> then (if 0 < r then PInf else NInf) else Fin r)"

fun fneg :: "float32 \<Rightarrow> float32" where
  "fneg (Fin x) = Fin (- x)"
| "fneg PInf = NInf"
| "fneg NInf = PInf"
| "fneg NaN = NaN"

fun fadd :: "float32 \<Rightarrow> float32 \<Rightarrow> float32" where
  "fadd NaN _ = NaN"
| "fadd _ NaN = NaN"
| "fadd (Fin x) (Fin y) = round32 (x + y)"
| "fadd PInf NInf = NaN"
| "fadd NInf PInf = NaN"
| "fadd PInf _ = PInf"
| "fadd _ PInf = PInf"
| "fadd NInf _ = NInf"
| "fadd _ NInf = NInf"

definition fsub :: "float32 \<Rightarrow> float32 \<Rightarrow> float32" where
  "fsub a b = fadd a (fneg b)"

fun fmul :: "float32 \<Rightarrow> float32 \<Rightarrow> float32" where
  "fmul NaN _ = NaN"
| "fmul _ NaN = NaN"
| "fmul (Fin x) (Fin y) = round32 (x * y)"
| "fmul (Fin x) PInf = (if x = 0 then NaN else if 0 < x then PInf else NInf)"
| "fmul (Fin x) NInf = (if x = 0 then NaN else if 0 < x then NInf else PInf)"
| "fmul PInf (Fin y) = (if y = 0 then NaN else if 0 < y then PInf else NInf)"
| "fmul NInf (Fin y) = (if y = 0 then NaN else if 0 < y then NInf else PInf)"
| "fmul PInf PInf = PInf"
| "fmul PInf NInf = NInf"
| "fmul NInf PInf = NInf"
| "fmul NInf NInf = PInf"

text \<open>\<^verbatim>\<open>floorf\<close> and \<^verbatim>\<open>ceilf\<close> are exact and pass infinities and NaN through.\<close>

fun floorf :: "float32 \<Rightarrow> float32" where
  "floorf (Fin x) = Fin (of_int \<lfloor>x\<rfloor>)"
| "floorf v = v"

fun ceilf :: "float32 \<Rightarrow> float32" where
  "ceilf (Fin x) = Fin (of_int \<lceil>x\<rceil>)"
| "ceilf v = v"

text \<open>Comparisons; every comparison with a NaN is false.\<close>

fun fle :: "float32 \<Rightarrow> float32 \<Rightarrow> bool" where
  "fle NaN _ = False"
| "fle _ NaN = False"
| "fle (Fin x) (Fin y) = (x \<le> y)"
| "fle NInf _ = True"
| "fle _ PInf = True"
| "fle _ NInf = False"
| "fle PInf _ = False"

fun flt :: "float32 \<Rightarrow> float32 \<Rightarrow> bool" where
  "flt NaN _ = False"
| "flt _ NaN = False"
| "flt (Fin x) (Fin y) = (x < y)"
| "flt PInf _ = False"
| "flt _ NInf = False"
| "flt NInf _ = True"
| "flt _ PInf = True"

text \<open>Conversion of a C \<^verbatim>\<open>int\<close> to \<^verbatim>\<open>float\<close> rounds (it is exact up to \<open>2 ^ 24\<close>).\<close>

definition int_to_float :: "int \<Rightarrow> float32" where
  "int_to_float n = round32 (of_int n)"

text \<open>
  Conversion of a \<^verbatim>\<open>float\<close> to \<^verbatim>\<open>int\<close> discards the fraction (truncation toward zero).
  When the integral part is not a value of \<^verbatim>\<open>int\<close> (32 bits), or the operand is an
  infinity or a NaN, the behaviour of the C program is undefined: the result is \<open>None\<close>.
\<close>

definition trunc0 :: "real \<Rightarrow> int" where
  "trunc0 x = (if 0 \<le> x then \<lfloor>x\<rfloor> else \<lceil>x\<rceil>)"

fun float_to_int :: "float32 \<Rightarrow> int option" where
  "float_to_int (Fin x) =
     (let t = trunc0 x in if - (2 ^ 31) \<le> t \<and> t < 2 ^ 31 then Some t else None)"
| "float_to_int v = None"

section \<open>Data of the program\<close>

record SDL_FRect =
  fr_x :: float32
  fr_y :: float32
  fr_w :: float32
  fr_h :: float32

record SDL_Point =
  pt_x :: int
  pt_y :: int

record SDL_FPoint =
  fpt_x :: float32
  fpt_y :: float32

text \<open>Of a texture the program reads only the pixel size (\<^verbatim>\<open>shadow.left->w\<close>, \<^verbatim>\<open>shadow.bottom->h\<close>).\<close>

record SDL_Texture =
  tex_w :: int
  tex_h :: int

record SDL_Color =
  col_r :: "8 word"
  col_g :: "8 word"
  col_b :: "8 word"
  col_a :: "8 word"

record layout_t =
  window :: SDL_FRect
  background :: SDL_FRect
  titleBar :: SDL_FRect
  clientArea :: SDL_FRect
  scale :: float32

record shadow_t =
  bottom :: SDL_Texture
  corner :: SDL_Texture
  left :: SDL_Texture

record palette =
  border :: SDL_Color
  pal_background :: SDL_Color
  pal_titleBar :: SDL_Color

record theme_t =
  light :: palette
  dark :: palette
  useLight :: bool

text \<open>
  The global variables of \<^verbatim>\<open>main.c\<close>. The window and renderer handles are owned by the
  windowing library and carry no data the program reads.
\<close>

record app =
  layout :: layout_t
  shadow :: shadow_t
  theme :: theme_t
  appShouldExit :: bool
  windowShouldBeRedrawn :: bool

datatype SDL_SystemTheme =
  SDL_SYSTEM_THEME_UNKNOWN | SDL_SYSTEM_THEME_LIGHT | SDL_SYSTEM_THEME_DARK

text \<open>
  What the windowing library answers when the program asks:
  \<^verbatim>\<open>SDL_GetWindowDisplayScale\<close>, \<^verbatim>\<open>SDL_GetWindowSizeInPixels\<close> and \<^verbatim>\<open>SDL_GetSystemTheme\<close>.
\<close>

record sdl_env =
  display_scale :: float32
  pixel_w :: int
  pixel_h :: int
  system_theme :: SDL_SystemTheme

text \<open>
  The event types \<^verbatim>\<open>handleEvent\<close> switches on; every other type code is
  \<open>SDL_EVENT_OTHER\<close> with its number.
\<close>

datatype SDL_EventType =
  SDL_EVENT_QUIT
| SDL_EVENT_WINDOW_EXPOSED
| SDL_EVENT_WINDOW_PIXEL_SIZE_CHANGED
| SDL_EVENT_WINDOW_DISPLAY_SCALE_CHANGED
| SDL_EVENT_SYSTEM_THEME_CHANGED
| SDL_EVENT_OTHER nat

datatype SDL_HitTestResult =
  SDL_HITTEST_NORMAL
| SDL_HITTEST_DRAGGABLE
| SDL_HITTEST_RESIZE_TOPLEFT
| SDL_HITTEST_RESIZE_TOP
| SDL_HITTEST_RESIZE_TOPRIGHT
| SDL_HITTEST_RESIZE_RIGHT
| SDL_HITTEST_RESIZE_BOTTOMRIGHT
| SDL_HITTEST_RESIZE_BOTTOM
| SDL_HITTEST_RESIZE_BOTTOMLEFT
| SDL_HITTEST_RESIZE_LEFT

section \<open>Initial values of the globals\<close>

definition rgba :: "8 word \<Rightarrow> 8 word \<Rightarrow> 8 word \<Rightarrow> 8 word \<Rightarrow> SDL_Color" where
  "rgba r g b a = \<lparr>col_r = r, col_g = g, col_b = b, col_a = a\<rparr>"

definition theme_init :: theme_t where
  "theme_init =
     \<lparr>light = \<lparr>border = rgba 200 200 200 255, pal_background = rgba 227 227 227 255,
                pal_titleBar = rgba 255 255 255 255\<rparr>,
      dark = \<lparr>border = rgba 55 55 55 255, pal_background = rgba 27 27 27 255,
               pal_titleBar = rgba 0 0 0 255\<rparr>,
      useLight = True\<rparr>"

definition zero_rect :: SDL_FRect where
  "zero_rect = \<lparr>fr_x = Fin 0, fr_y = Fin 0, fr_w = Fin 0, fr_h = Fin 0\<rparr>"

definition layout_init :: layout_t where
  "layout_init = \<lparr>window = zero_rect, background = zero_rect, titleBar = zero_rect,
                   clientArea = zero_rect, scale = Fin 0\<rparr>"

text \<open>
  The globals once \<^verbatim>\<open>loadImageResources\<close> has loaded the three shadow textures \<open>sh\<close>:
  the layout is still zero-initialised and the theme has its initialiser. A texture
  that failed to load (a null pointer, which \<^verbatim>\<open>updateLayout\<close> would dereference) is not
  modelled.
\<close>

definition init_app :: "shadow_t \<Rightarrow> app" where
  "init_app sh = \<lparr>layout = layout_init, shadow = sh, theme = theme_init,
                   appShouldExit = False, windowShouldBeRedrawn = True\<rparr>"

section \<open>updateLayout\<close>

text \<open>
  The \<^verbatim>\<open>int\<close> expressions \<^verbatim>\<open>w - 2 * shadow.left->w\<close> and \<^verbatim>\<open>h - 2 * shadow.bottom->h\<close> are
  computed on integers and converted on assignment; the other operations are
  \<^verbatim>\<open>float\<close> operations with their \<^verbatim>\<open>int\<close> operands converted first. The two \<^verbatim>\<open>int\<close>
  expressions are written over the unbounded integers: they leave the range of \<^verbatim>\<open>int\<close>
  only for a texture of \<open>2 ^ 30\<close> pixels or more, which the library cannot create.
\<close>

definition updateLayout :: "sdl_env \<Rightarrow> app \<Rightarrow> app" where
  "updateLayout env s =
    (let sc = display_scale env;
         w = pixel_w env;
         h = pixel_h env;
         lw = tex_w (left (shadow s));
         bh = tex_h (bottom (shadow s));
         win = \<lparr>fr_x = int_to_float 0, fr_y = int_to_float 0,
                fr_w = int_to_float w, fr_h = int_to_float h\<rparr>;
         bg = \<lparr>fr_x = int_to_float lw, fr_y = int_to_float bh,
               fr_w = int_to_float (w - 2 * lw), fr_h = int_to_float (h - 2 * bh)\<rparr>;
         rh = fsub (fr_h bg) (fmul (int_to_float 2) (floorf sc));
         tb = \<lparr>fr_x = fadd (fr_x bg) (floorf sc),
               fr_y = fadd (fr_y bg) (floorf sc),
               fr_w = fsub (fr_w bg) (fmul (int_to_float 2) (floorf sc)),
               fr_h = ceilf (fmul (int_to_float 30) sc)\<rparr>;
         rh' = fsub rh (fadd (fr_h tb) (floorf sc));
         ca = \<lparr>fr_x = fr_x tb,
               fr_y = fadd (fadd (fr_y tb) (fr_h tb)) (floorf sc),
               fr_w = fr_w tb,
               fr_h = rh'\<rparr>
     in s\<lparr>layout := \<lparr>window = win, background = bg, titleBar = tb, clientArea = ca,
                       scale = sc\<rparr>,
          windowShouldBeRedrawn := True\<rparr>)"

section \<open>handleEvent and the main loop\<close>

fun handleEvent :: "sdl_env \<Rightarrow> SDL_EventType \<Rightarrow> app \<Rightarrow> app" where
  "handleEvent env SDL_EVENT_QUIT s = s\<lparr>appShouldExit := True\<rparr>"
| "handleEvent env SDL_EVENT_WINDOW_EXPOSED s = s\<lparr>windowShouldBeRedrawn := True\<rparr>"
| "handleEvent env SDL_EVENT_WINDOW_PIXEL_SIZE_CHANGED s = updateLayout env s"
| "handleEvent env SDL_EVENT_WINDOW_DISPLAY_SCALE_CHANGED s = updateLayout env s"
| "handleEvent env SDL_EVENT_SYSTEM_THEME_CHANGED s =
     s\<lparr>theme := (theme s)\<lparr>useLight := (system_theme env \<noteq> SDL_SYSTEM_THEME_DARK)\<rparr>,
       windowShouldBeRedrawn := True\<rparr>"
| "handleEvent env (SDL_EVENT_OTHER n) s = s"

text \<open>The part of \<^verbatim>\<open>main\<close> between loading the textures and the loop.\<close>

definition main_startup :: "sdl_env \<Rightarrow> app \<Rightarrow> app" where
  "main_startup env s =
     (let s1 = updateLayout env s
      in s1\<lparr>theme := (theme s1)\<lparr>useLight := (system_theme env \<noteq> SDL_SYSTEM_THEME_DARK)\<rparr>\<rparr>)"

text \<open>
  One pass of the loop body: when the flag is set the window is drawn (drawing reads
  the globals and writes none) and the flag is cleared; then \<^verbatim>\<open>handleEvent\<close> is called
  on the event variable, which holds the event that arrived or, after a timeout, what
  it held before: any event type.
\<close>

definition main_iteration :: "sdl_env \<Rightarrow> SDL_EventType \<Rightarrow> app \<Rightarrow> app" where
  "main_iteration env ev s =
     handleEvent env ev (if windowShouldBeRedrawn s then s\<lparr>windowShouldBeRedrawn := False\<rparr> else s)"

text \<open>
  The states of the globals the program can be in, for shadow textures \<open>sh\<close>: before and
  after the start-up code, and after every pass of the loop, which is left once
  \<^verbatim>\<open>appShouldExit\<close> is set.
\<close>

inductive reachable :: "shadow_t \<Rightarrow> app \<Rightarrow> bool" for sh :: shadow_t where
  boot: "reachable sh (init_app sh)"
| startup: "reachable sh (main_startup env (init_app sh))"
| iteration: "reachable sh s \<Longrightarrow> \<not> appShouldExit s
              \<Longrightarrow> reachable sh (main_iteration env ev s)"

section \<open>hitTest\<close>

text \<open>
  \<^verbatim>\<open>SDL_PointInRectFloat\<close> is an inline function of the windowing library's header
  \<^verbatim>\<open>SDL_rect.h\<close>, not of this repository. As the library documents it, a point is in a
  rectangle when its coordinates are at least the top left corner's and at most
  \<^verbatim>\<open>x + w\<close> and \<^verbatim>\<open>y + h\<close>: both bounds are inclusive.
\<close>

definition SDL_PointInRectFloat :: "SDL_FPoint \<Rightarrow> SDL_FRect \<Rightarrow> bool" where
  "SDL_PointInRectFloat p r =
     (fle (fr_x r) (fpt_x p) \<and> fle (fpt_x p) (fadd (fr_x r) (fr_w r)) \<and>
      fle (fr_y r) (fpt_y p) \<and> fle (fpt_y p) (fadd (fr_y r) (fr_h r)))"

text \<open>The locals of \<^verbatim>\<open>hitTest\<close>: the scaled cursor position and the two tolerances.\<close>

definition cursor_pos :: "app \<Rightarrow> SDL_Point \<Rightarrow> SDL_FPoint" where
  "cursor_pos s area =
     \<lparr>fpt_x = fmul (int_to_float (pt_x area)) (scale (layout s)),
      fpt_y = fmul (int_to_float (pt_y area)) (scale (layout s))\<rparr>"

definition edgeTol :: "app \<Rightarrow> int option" where
  "edgeTol s = float_to_int (ceilf (fmul (int_to_float 2) (scale (layout s))))"

definition cornerTol :: "app \<Rightarrow> int option" where
  "cornerTol s = float_to_int (ceilf (fmul (int_to_float 8) (scale (layout s))))"

text \<open>
  The conditions of the \<^verbatim>\<open>if\<close> chain. An \<^verbatim>\<open>int\<close> compared or combined with a \<^verbatim>\<open>float\<close>
  is converted to \<^verbatim>\<open>float\<close> first.
\<close>

definition left_border :: "app \<Rightarrow> int \<Rightarrow> int \<Rightarrow> bool" where
  "left_border s x et =
     (let bx = fr_x (background (layout s))
      in fle (fsub bx (int_to_float et)) (int_to_float x) \<and>
         fle (int_to_float x) (fadd bx (int_to_float et)))"

definition right_border :: "app \<Rightarrow> int \<Rightarrow> int \<Rightarrow> bool" where
  "right_border s x et =
     (let bx = fr_x (background (layout s)); bw = fr_w (background (layout s))
      in fle (fsub (fadd bx bw) (int_to_float et)) (int_to_float x) \<and>
         fle (int_to_float x) (fadd (fadd bx bw) (int_to_float et)))"

definition top_border :: "app \<Rightarrow> int \<Rightarrow> int \<Rightarrow> bool" where
  "top_border s y et =
     (let by = fr_y (background (layout s))
      in fle (fsub by (int_to_float et)) (int_to_float y) \<and>
         fle (int_to_float y) (fadd by (int_to_float et)))"

definition bottom_border :: "app \<Rightarrow> int \<Rightarrow> int \<Rightarrow> bool" where
  "bottom_border s y et =
     (let by = fr_y (background (layout s)); bh = fr_h (background (layout s))
      in fle (fsub (fadd by bh) (int_to_float et)) (int_to_float y) \<and>
         fle (int_to_float y) (fadd (fadd by bh) (int_to_float et)))"

definition top_corner :: "app \<Rightarrow> int \<Rightarrow> int \<Rightarrow> bool" where
  "top_corner s y ct =
     flt (int_to_float y) (fadd (fr_y (background (layout s))) (int_to_float ct))"

definition bottom_corner :: "app \<Rightarrow> int \<Rightarrow> int \<Rightarrow> bool" where
  "bottom_corner s y ct =
     (let by = fr_y (background (layout s)); bh = fr_h (background (layout s))
      in fle (fsub (fadd by bh) (int_to_float ct)) (int_to_float y))"

text \<open>The \<^verbatim>\<open>if\<close> chain, for the converted position \<open>(x, y)\<close> and the tolerances.\<close>

definition hit_region ::
  "app \<Rightarrow> SDL_FPoint \<Rightarrow> int \<Rightarrow> int \<Rightarrow> int \<Rightarrow> int \<Rightarrow> SDL_HitTestResult" where
  "hit_region s pos x y et ct =
     (if left_border s x et then
        (if top_corner s y ct then SDL_HITTEST_RESIZE_TOPLEFT
         else if bottom_corner s y ct then SDL_HITTEST_RESIZE_BOTTOMLEFT
         else SDL_HITTEST_RESIZE_LEFT)
      else if right_border s x et then
        (if top_corner s y ct then SDL_HITTEST_RESIZE_TOPRIGHT
         else if bottom_corner s y ct then SDL_HITTEST_RESIZE_BOTTOMRIGHT
         else SDL_HITTEST_RESIZE_RIGHT)
      else if top_border s y et then SDL_HITTEST_RESIZE_TOP
      else if bottom_border s y et then SDL_HITTEST_RESIZE_BOTTOM
      else if SDL_PointInRectFloat pos (titleBar (layout s)) then SDL_HITTEST_DRAGGABLE
      else SDL_HITTEST_NORMAL)"

text \<open>
  \<^verbatim>\<open>hitTest\<close> reads the globals and returns a region; the four conversions to \<^verbatim>\<open>int\<close>
  come first, and the result is \<open>None\<close> when one of them is undefined.
\<close>

definition hitTest :: "app \<Rightarrow> SDL_Point \<Rightarrow> SDL_HitTestResult option" where
  "hitTest s area =
     (let pos = cursor_pos s area in
      case float_to_int (fpt_x pos) of None \<Rightarrow> None | Some x \<Rightarrow>
      (case float_to_int (fpt_y pos) of None \<Rightarrow> None | Some y \<Rightarrow>
      (case edgeTol s of None \<Rightarrow> None | Some et \<Rightarrow>
      (case cornerTol s of None \<Rightarrow> None | Some ct \<Rightarrow>
         Some (hit_region s pos x y et ct)))))"

text \<open>
  Where a conversion is undefined in C, the compiled program still delivers an \<^verbatim>\<open>int\<close>
  and goes on. \<open>convert oor\<close> is the conversion as a platform runs it: the converted
  value where C defines one, and \<open>oor v\<close>, the platform's result for an operand \<open>v\<close>
  outside the range of \<^verbatim>\<open>int\<close>, elsewhere. On x86-64 that result is the smallest
  \<^verbatim>\<open>int\<close> for every such operand. \<open>hitTest_on oor\<close> is \<^verbatim>\<open>hitTest\<close> on such a platform.
\<close>

definition convert :: "(float32 \<Rightarrow> int) \<Rightarrow> float32 \<Rightarrow> int" where
  "convert oor v = (case float_to_int v of Some n \<Rightarrow> n | None \<Rightarrow> oor v)"

definition int_indefinite :: "float32 \<Rightarrow> int" where
  "int_indefinite v = - (2 ^ 31)"

definition hitTest_on :: "(float32 \<Rightarrow> int) \<Rightarrow> app \<Rightarrow> SDL_Point \<Rightarrow> SDL_HitTestResult" where
  "hitTest_on oor s area =
     (let pos = cursor_pos s area;
          x = convert oor (fpt_x pos);
          y = convert oor (fpt_y pos);
          et = convert oor (ceilf (fmul (int_to_float 2) (scale (layout s))));
          ct = convert oor (ceilf (fmul (int_to_float 8) (scale (layout s))))
      in hit_region s pos x y et ct)"

section \<open>Example inputs\<close>

text \<open>
  Shadow textures with a margin of 16 pixels (the geometry \<^verbatim>\<open>drawShadow\<close> assumes: strips
  of 16, corners of 55), and an 800 by 600 pixel window at scale 1.0 and at scale 1.5.
\<close>

definition shadow16 :: shadow_t where
  "shadow16 = \<lparr>bottom = \<lparr>tex_w = 1, tex_h = 16\<rparr>, corner = \<lparr>tex_w = 55, tex_h = 55\<rparr>,
               left = \<lparr>tex_w = 16, tex_h = 1\<rparr>\<rparr>"

definition env_800x600 :: "real \<Rightarrow> sdl_env" where
  "env_800x600 sc = \<lparr>display_scale = Fin sc, pixel_w = 800, pixel_h = 600,
                      system_theme = SDL_SYSTEM_THEME_LIGHT\<rparr>"

definition app_800x600 :: "real \<Rightarrow> app" where
  "app_800x600 sc = updateLayout (env_800x600 sc) (init_app shadow16)"

definition env_200x40 :: sdl_env where
  "env_200x40 = \<lparr>display_scale = Fin 1, pixel_w = 200, pixel_h = 40,
                  system_theme = SDL_SYSTEM_THEME_LIGHT\<rparr>"

definition app_200x40 :: app where
  "app_200x40 = updateLayout env_200x40 (init_app shadow16)"

text \<open>A window of 800 by 536870977 pixels, beyond the exact range of binary32.\<close>

definition env_tall :: sdl_env where
  "env_tall = \<lparr>display_scale = Fin 1, pixel_w = 800, pixel_h = 536870977,
                system_theme = SDL_SYSTEM_THEME_LIGHT\<rparr>"

definition app_tall :: app where
  "app_tall = updateLayout env_tall (init_app shadow16)"

section \<open>Notions of the specification\<close>

text \<open>
  A coordinate is within a tolerance of an edge when it lies in the band from the edge
  less the tolerance to the edge plus the tolerance, both ends included: the test the
  program applies to the four border bands.
\<close>

definition within_tolerance :: "int \<Rightarrow> float32 \<Rightarrow> int \<Rightarrow> bool" where
  "within_tolerance v edge tol =
     (fle (fsub edge (int_to_float tol)) (int_to_float v) \<and>
      fle (int_to_float v) (fadd edge (int_to_float tol)))"

text \<open>
  One rectangle is contained in another when its top left and its bottom right corner
  are points of the other, in the sense of the library's point-in-rectangle test.
\<close>

definition rect_contained :: "SDL_FRect \<Rightarrow> SDL_FRect \<Rightarrow> bool" where
  "rect_contained a b =
     (SDL_PointInRectFloat \<lparr>fpt_x = fr_x a, fpt_y = fr_y a\<rparr> b \<and>
      SDL_PointInRectFloat
        \<lparr>fpt_x = fadd (fr_x a) (fr_w a), fpt_y = fadd (fr_y a) (fr_h a)\<rparr> b)"

text \<open>The nesting of the four rectangles that the specification asks of a layout.\<close>

definition nested_layout :: "layout_t \<Rightarrow> bool" where
  "nested_layout l =
     (rect_contained (background l) (window l) \<and>
      rect_contained (titleBar l) (background l) \<and>
      rect_contained (clientArea l) (background l) \<and>
      fr_x (clientArea l) = fr_x (titleBar l) \<and>
      fr_w (clientArea l) = fr_w (titleBar l) \<and>
      fr_y (clientArea l) =
        fadd (fadd (fr_y (titleBar l)) (fr_h (titleBar l))) (floorf (scale l)))"


text \<open>
  The inputs of \<^verbatim>\<open>updateLayout\<close> for which single-precision arithmetic is exact on every
  value it computes: a finite positive scale \<open>sc\<close> of at most 128, a window of at most
  \<open>2 ^ 20\<close> pixels each way, shadow textures of at most \<open>2 ^ 16\<close> pixels.
\<close>

definition in_exact_range :: "real \<Rightarrow> sdl_env \<Rightarrow> app \<Rightarrow> bool" where
  "in_exact_range sc env s =
     (display_scale env = Fin sc \<and> 0 < sc \<and> sc \<le> 128 \<and>
      0 < pixel_w env \<and> pixel_w env \<le> 2 ^ 20 \<and>
      0 < pixel_h env \<and> pixel_h env \<le> 2 ^ 20 \<and>
      0 \<le> tex_w (left (shadow s)) \<and> tex_w (left (shadow s)) \<le> 2 ^ 16 \<and>
      0 \<le> tex_h (bottom (shadow s)) \<and> tex_h (bottom (shadow s)) \<le> 2 ^ 16)"

text \<open>The title bar height \<^verbatim>\<open>ceilf(30 * scale)\<close> of a finite scale, as an integer.\<close>

definition title_height :: "real \<Rightarrow> int" where
  "title_height sc = \<lceil>f32r (30 * sc)\<rceil>"

text \<open>
  The values \<^verbatim>\<open>hitTest\<close> computes at a finite scale \<open>sc\<close>, as integers: the tolerance
  \<^verbatim>\<open>ceilf(k * scale)\<close> and the cursor coordinate \<^verbatim>\<open>(int)(n * scale)\<close>.
\<close>

definition tolerance :: "int \<Rightarrow> real \<Rightarrow> int" where
  "tolerance k sc = \<lceil>f32r (of_int k * sc)\<rceil>"

definition scaled :: "real \<Rightarrow> int \<Rightarrow> int" where
  "scaled sc n = trunc0 (f32r (of_int n * sc))"

section \<open>Exact single-precision results\<close>

lemma rne_of_int: "rne (of_int z) = z"
  by (simp add: rne_def)

lemma rne_Ints: "z \<in> \<int> \<Longrightarrow> of_int (rne z) = z"
  by (auto simp: Ints_def rne_of_int)

lemma f32r_exactI:
  assumes "x * 2 ^ 149 / 2 ^ quantum x \<in> \<int>"
  shows "f32r x = x"
  using rne_Ints [OF assms] by (simp add: f32r_def)

lemma quantum_le:
  assumes "\<bar>x\<bar> < 2 ^ 24"
  shows "quantum x \<le> 149"
proof -
  have "\<bar>x\<bar> * 2 ^ 149 < 2 ^ 24 * 2 ^ 149" using assms by simp
  then have "\<bar>x\<bar> * 2 ^ 149 < 2 ^ 173" by simp
  then have "\<lfloor>\<bar>x\<bar> * 2 ^ 149\<rfloor> < 2 ^ 173"
    by (simp add: floor_less_iff)
  then have "nat \<lfloor>\<bar>x\<bar> * 2 ^ 149\<rfloor> < 2 ^ 173"
    by (simp add: nat_less_iff)
  then have "floorlog 2 (nat \<lfloor>\<bar>x\<bar> * 2 ^ 149\<rfloor>) \<le> 173"
    by (intro floorlog_leI) simp_all
  then show ?thesis by (simp add: quantum_def)
qed

text \<open>An integer below \<open>2 ^ 24\<close> in magnitude is a binary32 number: rounding keeps it.\<close>

lemma f32r_Ints:
  assumes "x \<in> \<int>" "\<bar>x\<bar> < 2 ^ 24"
  shows "f32r x = x"
proof (rule f32r_exactI)
  obtain d where d: "149 = quantum x + d"
    using quantum_le [OF assms(2)] by (metis le_Suc_ex)
  have "x * 2 ^ 149 / 2 ^ quantum x = x * 2 ^ d"
    by (simp add: d power_add)
  moreover have "x * 2 ^ d \<in> \<int>" using assms(1) by simp
  ultimately show "x * 2 ^ 149 / 2 ^ quantum x \<in> \<int>" by simp
qed

lemma round32_Ints:
  assumes "x \<in> \<int>" "\<bar>x\<bar> < 2 ^ 24"
  shows "round32 x = Fin x"
proof -
  have "\<bar>x\<bar> < 2 ^ 128" using assms(2) by (rule less_trans) simp
  then show ?thesis by (simp add: round32_def f32r_Ints [OF assms])
qed

lemma int_to_float_exact: "\<bar>n\<bar> < 2 ^ 24 \<Longrightarrow> int_to_float n = Fin (of_int n)"
  by (simp add: int_to_float_def round32_Ints)

lemma rne_le_int: "y \<le> of_int m \<Longrightarrow> rne y \<le> m"
  by (auto simp: rne_def Let_def floor_le_iff le_floor_iff)

lemma rne_ge_floor: "\<lfloor>y\<rfloor> \<le> rne y"
  by (simp add: rne_def Let_def)

lemma rne_ge_int: "of_int m \<le> y \<Longrightarrow> m \<le> rne y"
  using rne_ge_floor [of y] by (simp add: le_floor_iff [symmetric])

lemma f32r_small:
  assumes "\<bar>y\<bar> < 2 ^ 24"
  obtains d :: nat where "f32r y = of_int (rne (y * 2 ^ d)) / 2 ^ d"
proof -
  obtain d where d: "149 = quantum y + d"
    using quantum_le [OF assms] by (metis le_Suc_ex)
  have "y * 2 ^ 149 / 2 ^ quantum y = y * 2 ^ d"
    by (simp add: d power_add)
  moreover have "of_int z * 2 ^ quantum y / 2 ^ 149 = of_int z / (2 ^ d :: real)" for z :: int
    by (simp add: d power_add)
  ultimately have "f32r y = of_int (rne (y * 2 ^ d)) / 2 ^ d"
    by (simp add: f32r_def)
  then show thesis ..
qed

lemma f32r_le_int:
  assumes "\<bar>y\<bar> < 2 ^ 24" "y \<le> of_int m"
  shows "f32r y \<le> of_int m"
proof -
  obtain d :: nat where d: "f32r y = of_int (rne (y * 2 ^ d)) / 2 ^ d"
    using f32r_small [OF assms(1)] .
  have "y * 2 ^ d \<le> of_int (m * 2 ^ d)" using assms(2) by simp
  then have "rne (y * 2 ^ d) \<le> m * 2 ^ d" by (rule rne_le_int)
  then have "real_of_int (rne (y * 2 ^ d)) \<le> of_int m * 2 ^ d"
    by (metis of_int_le_iff of_int_mult of_int_numeral of_int_power)
  then show ?thesis by (simp add: d field_simps)
qed

lemma f32r_ge_int:
  assumes "\<bar>y\<bar> < 2 ^ 24" "of_int m \<le> y"
  shows "of_int m \<le> f32r y"
proof -
  obtain d :: nat where d: "f32r y = of_int (rne (y * 2 ^ d)) / 2 ^ d"
    using f32r_small [OF assms(1)] .
  have "of_int (m * 2 ^ d) \<le> y * 2 ^ d" using assms(2) by simp
  then have "m * 2 ^ d \<le> rne (y * 2 ^ d)" by (rule rne_ge_int)
  then have "of_int m * 2 ^ d \<le> real_of_int (rne (y * 2 ^ d))"
    by (metis of_int_le_iff of_int_mult of_int_numeral of_int_power)
  then show ?thesis by (simp add: d field_simps)
qed

lemma round32_small:
  assumes "\<bar>y\<bar> < 2 ^ 23"
  shows "round32 y = Fin (f32r y)"
proof -
  have y: "\<bar>y\<bar> < 2 ^ 24" using assms by (rule less_trans) simp
  have "y \<le> of_int (2 ^ 23)" "of_int (- (2 ^ 23)) \<le> y" using assms by auto
  then have "f32r y \<le> of_int (2 ^ 23)" "of_int (- (2 ^ 23)) \<le> f32r y"
    using f32r_le_int [OF y] f32r_ge_int [OF y] by blast+
  then have "\<bar>f32r y\<bar> \<le> 2 ^ 23" by simp
  then have "\<bar>f32r y\<bar> < 2 ^ 128" by (rule le_less_trans) simp
  then show ?thesis by (simp add: round32_def)
qed

lemma title_height_bounds:
  assumes "0 < sc" "sc \<le> 128"
  shows "0 \<le> title_height sc" "title_height sc \<le> 3840"
    "ceilf (fmul (int_to_float 30) (Fin sc)) = Fin (of_int (title_height sc))"
proof -
  have a: "\<bar>30 * sc\<bar> < 2 ^ 23" using assms by simp
  then have y: "\<bar>30 * sc\<bar> < 2 ^ 24" by simp
  have "of_int 0 \<le> 30 * sc" "30 * sc \<le> of_int 3840" using assms by simp_all
  then have "of_int 0 \<le> f32r (30 * sc)" "f32r (30 * sc) \<le> of_int 3840"
    using f32r_ge_int [OF y] f32r_le_int [OF y] by blast+
  then show "0 \<le> title_height sc" "title_height sc \<le> 3840"
    by (simp_all add: title_height_def ceiling_le_iff)
  show "ceilf (fmul (int_to_float 30) (Fin sc)) = Fin (of_int (title_height sc))"
    using round32_small [OF a] by (simp add: int_to_float_exact title_height_def)
qed


lemma round32_Ints2:
  "x \<in> \<int> \<Longrightarrow> - 16777216 < x \<Longrightarrow> x < 16777216 \<Longrightarrow> round32 x = Fin x"
  by (rule round32_Ints) simp_all

lemma layout_exact:
  assumes "in_exact_range sc env s"
  shows "layout (updateLayout env s) =
    (let w = pixel_w env; h = pixel_h env;
         lw = tex_w (left (shadow s)); bh = tex_h (bottom (shadow s));
         f = \<lfloor>sc\<rfloor>; t = title_height sc
     in \<lparr>window = \<lparr>fr_x = Fin 0, fr_y = Fin 0, fr_w = Fin (of_int w), fr_h = Fin (of_int h)\<rparr>,
         background = \<lparr>fr_x = Fin (of_int lw), fr_y = Fin (of_int bh),
           fr_w = Fin (of_int (w - 2 * lw)), fr_h = Fin (of_int (h - 2 * bh))\<rparr>,
         titleBar = \<lparr>fr_x = Fin (of_int (lw + f)), fr_y = Fin (of_int (bh + f)),
           fr_w = Fin (of_int (w - 2 * lw - 2 * f)), fr_h = Fin (of_int t)\<rparr>,
         clientArea = \<lparr>fr_x = Fin (of_int (lw + f)), fr_y = Fin (of_int (bh + f + t + f)),
           fr_w = Fin (of_int (w - 2 * lw - 2 * f)),
           fr_h = Fin (of_int (h - 2 * bh - 2 * f - (t + f)))\<rparr>,
         scale = Fin sc\<rparr>)"
proof -
  define f where "f = \<lfloor>sc\<rfloor>"
  define t where "t = title_height sc"
  from assms have sc: "display_scale env = Fin sc" "0 < sc" "sc \<le> 128"
    and w: "0 < real_of_int (pixel_w env)" "real_of_int (pixel_w env) \<le> 1048576"
    and h: "0 < real_of_int (pixel_h env)" "real_of_int (pixel_h env) \<le> 1048576"
    and lw: "0 \<le> real_of_int (tex_w (left (shadow s)))"
      "real_of_int (tex_w (left (shadow s))) \<le> 65536"
    and bh: "0 \<le> real_of_int (tex_h (bottom (shadow s)))"
      "real_of_int (tex_h (bottom (shadow s))) \<le> 65536"
    by (simp_all add: in_exact_range_def)
  have "0 \<le> f" "f \<le> 128" using sc by (simp_all add: f_def floor_le_iff le_floor_iff)
  then have f: "0 \<le> real_of_int f" "real_of_int f \<le> 128" by simp_all
  have "0 \<le> t" "t \<le> 3840"
    and th: "ceilf (fmul (int_to_float 30) (Fin sc)) = Fin (of_int t)"
    using title_height_bounds [OF sc(2,3)] by (simp_all add: t_def)
  then have t: "0 \<le> real_of_int t" "real_of_int t \<le> 3840" by simp_all
  have fl: "floorf (Fin sc) = Fin (of_int f)" by (simp add: f_def)
  show ?thesis
    unfolding updateLayout_def Let_def sc(1) th fl f_def [symmetric] t_def [symmetric]
    using w h lw bh f t
    by (simp add: int_to_float_def fsub_def round32_Ints2)
qed

section \<open>Frame properties\<close>

lemma updateLayout_theme: "theme (updateLayout env s) = theme s"
  by (simp add: updateLayout_def Let_def)

lemma updateLayout_shadow: "shadow (updateLayout env s) = shadow s"
  by (simp add: updateLayout_def Let_def)

lemma handleEvent_palettes:
  "light (theme (handleEvent env ev s)) = light (theme s) \<and>
   dark (theme (handleEvent env ev s)) = dark (theme s)"
  by (cases ev) (simp_all add: updateLayout_theme)

lemma main_iteration_palettes:
  "light (theme (main_iteration env ev s)) = light (theme s) \<and>
   dark (theme (main_iteration env ev s)) = dark (theme s)"
  by (simp add: main_iteration_def handleEvent_palettes)

lemma main_startup_palettes:
  "light (theme (main_startup env s)) = light (theme s) \<and>
   dark (theme (main_startup env s)) = dark (theme s)"
  by (simp add: main_startup_def Let_def updateLayout_theme)

lemma reachable_palettes:
  "reachable sh s \<Longrightarrow> light (theme s) = light theme_init \<and> dark (theme s) = dark theme_init"
proof (induction rule: reachable.induct)
  case boot
  show ?case by (simp add: init_app_def)
next
  case (startup env)
  show ?case by (simp add: main_startup_palettes init_app_def)
next
  case (iteration s env ev)
  then show ?case by (simp add: main_iteration_palettes)
qed

section \<open>The example window\<close>

lemmas exact_ops = round32_Ints int_to_float_exact fsub_def

lemma layout_800x600_1:
  "layout (app_800x600 1) =
     \<lparr>window = \<lparr>fr_x = Fin 0, fr_y = Fin 0, fr_w = Fin 800, fr_h = Fin 600\<rparr>,
      background = \<lparr>fr_x = Fin 16, fr_y = Fin 16, fr_w = Fin 768, fr_h = Fin 568\<rparr>,
      titleBar = \<lparr>fr_x = Fin 17, fr_y = Fin 17, fr_w = Fin 766, fr_h = Fin 30\<rparr>,
      clientArea = \<lparr>fr_x = Fin 17, fr_y = Fin 48, fr_w = Fin 766, fr_h = Fin 535\<rparr>,
      scale = Fin 1\<rparr>"
  by (simp add: app_800x600_def updateLayout_def env_800x600_def init_app_def shadow16_def
      Let_def exact_ops)

lemma layout_800x600_15:
  assumes "shadow s0 = shadow16"
  shows "layout (updateLayout (env_800x600 (3/2)) s0) =
     \<lparr>window = \<lparr>fr_x = Fin 0, fr_y = Fin 0, fr_w = Fin 800, fr_h = Fin 600\<rparr>,
      background = \<lparr>fr_x = Fin 16, fr_y = Fin 16, fr_w = Fin 768, fr_h = Fin 568\<rparr>,
      titleBar = \<lparr>fr_x = Fin 17, fr_y = Fin 17, fr_w = Fin 766, fr_h = Fin 45\<rparr>,
      clientArea = \<lparr>fr_x = Fin 17, fr_y = Fin 63, fr_w = Fin 766, fr_h = Fin 520\<rparr>,
      scale = Fin (3/2)\<rparr>"
  using assms
  by (simp add: updateLayout_def env_800x600_def shadow16_def Let_def exact_ops)

lemmas hit_defs = hitTest_def cursor_pos_def edgeTol_def cornerTol_def hit_region_def
  left_border_def right_border_def top_border_def bottom_border_def top_corner_def
  bottom_corner_def SDL_PointInRectFloat_def trunc0_def Let_def

section \<open>Layouts in the exact range\<close>

lemma rect_contained_exact:
  assumes "ax + aw \<in> \<int>" "\<bar>ax + aw\<bar> < 2 ^ 24" "ay + ah \<in> \<int>" "\<bar>ay + ah\<bar> < 2 ^ 24"
    and "bx + bw \<in> \<int>" "\<bar>bx + bw\<bar> < 2 ^ 24" "by + bh \<in> \<int>" "\<bar>by + bh\<bar> < 2 ^ 24"
  shows "rect_contained \<lparr>fr_x = Fin ax, fr_y = Fin ay, fr_w = Fin aw, fr_h = Fin ah\<rparr>
           \<lparr>fr_x = Fin bx, fr_y = Fin by, fr_w = Fin bw, fr_h = Fin bh\<rparr> =
         (bx \<le> ax \<and> ax \<le> bx + bw \<and> by \<le> ay \<and> ay \<le> by + bh \<and>
          bx \<le> ax + aw \<and> ax + aw \<le> bx + bw \<and> by \<le> ay + ah \<and> ay + ah \<le> by + bh)"
proof -
  have "round32 (ax + aw) = Fin (ax + aw)" "round32 (ay + ah) = Fin (ay + ah)"
    "round32 (bx + bw) = Fin (bx + bw)" "round32 (by + bh) = Fin (by + bh)"
    using assms by (simp_all only: round32_Ints)
  then show ?thesis
    by (simp add: rect_contained_def SDL_PointInRectFloat_def)
qed








section \<open>The hit test at moderate scales\<close>

lemma f32r_abs_le:
  assumes "\<bar>y\<bar> \<le> 2 ^ 23"
  shows "\<bar>f32r y\<bar> \<le> 2 ^ 23"
proof -
  have y: "\<bar>y\<bar> < 2 ^ 24" using assms by (rule le_less_trans) simp
  have "y \<le> of_int (2 ^ 23)" "of_int (- (2 ^ 23)) \<le> y" using assms by auto
  then have "f32r y \<le> of_int (2 ^ 23)" "of_int (- (2 ^ 23)) \<le> f32r y"
    using f32r_le_int [OF y] f32r_ge_int [OF y] by blast+
  then show ?thesis by simp
qed

lemma round32_le:
  assumes "\<bar>y\<bar> \<le> 2 ^ 23"
  shows "round32 y = Fin (f32r y)"
proof -
  have "\<bar>f32r y\<bar> < 2 ^ 128" using f32r_abs_le [OF assms] by (rule le_less_trans) simp
  then show ?thesis by (simp add: round32_def)
qed

lemma trunc0_bounds: "\<bar>r\<bar> \<le> of_int m \<Longrightarrow> \<bar>trunc0 r\<bar> \<le> m"
  by (auto simp: trunc0_def abs_le_iff floor_le_iff le_floor_iff ceiling_le_iff le_ceiling_iff)
    linarith+

lemma float_to_int_small:
  assumes "\<bar>r\<bar> \<le> 2 ^ 23"
  shows "float_to_int (Fin r) = Some (trunc0 r)" "\<bar>trunc0 r\<bar> \<le> 2 ^ 23"
proof -
  have "\<bar>r\<bar> \<le> of_int (2 ^ 23)" using assms by simp
  then show t: "\<bar>trunc0 r\<bar> \<le> 2 ^ 23" by (rule trunc0_bounds)
  then show "float_to_int (Fin r) = Some (trunc0 r)" by (simp add: Let_def abs_le_iff)
qed

lemma scaled_coord:
  assumes "0 \<le> sc" "sc \<le> 128" "\<bar>n\<bar> \<le> 65536"
  shows "float_to_int (fmul (int_to_float n) (Fin sc)) = Some (scaled sc n)"
    "\<bar>scaled sc n\<bar> \<le> 2 ^ 23"
proof -
  have n: "int_to_float n = Fin (of_int n)"
    using assms(3) by (simp add: int_to_float_exact)
  have "\<bar>real_of_int n\<bar> \<le> 65536" using assms(3) by linarith
  then have "\<bar>real_of_int n\<bar> * \<bar>sc\<bar> \<le> 65536 * 128"
    using assms(1,2) by (intro mult_mono) simp_all
  then have b: "\<bar>real_of_int n * sc\<bar> \<le> 2 ^ 23" by (simp add: abs_mult)
  have "fmul (int_to_float n) (Fin sc) = Fin (f32r (of_int n * sc))"
    using round32_le [OF b] by (simp add: n)
  then show "float_to_int (fmul (int_to_float n) (Fin sc)) = Some (scaled sc n)"
    "\<bar>scaled sc n\<bar> \<le> 2 ^ 23"
    using float_to_int_small [OF f32r_abs_le [OF b]] by (simp_all add: scaled_def)
qed

lemma tolerance_exact:
  assumes "0 \<le> sc" "sc \<le> 128" "0 \<le> k" "k \<le> 30"
  shows "float_to_int (ceilf (fmul (int_to_float k) (Fin sc))) = Some (tolerance k sc)"
    "ceilf (fmul (int_to_float k) (Fin sc)) = Fin (of_int (tolerance k sc))"
    "0 \<le> tolerance k sc" "tolerance k sc \<le> k * 128"
proof -
  have k: "int_to_float k = Fin (of_int k)"
    using assms(3,4) by (simp add: int_to_float_exact)
  have n: "0 \<le> real_of_int k * sc" using assms by simp
  have "real_of_int k * sc \<le> real_of_int k * 128"
    using assms by (intro mult_left_mono) simp_all
  then have u: "real_of_int k * sc \<le> of_int (k * 128)" by simp
  have "real_of_int (k * 128) \<le> real_of_int 3840" using assms(4) by (simp only: of_int_le_iff)
  then have u2: "real_of_int k * sc \<le> 3840" using u by simp
  then have y: "\<bar>real_of_int k * sc\<bar> < 2 ^ 24" and b: "\<bar>real_of_int k * sc\<bar> \<le> 2 ^ 23"
    using n by simp_all
  have "of_int 0 \<le> real_of_int k * sc" using n by simp
  then have lo: "of_int 0 \<le> f32r (real_of_int k * sc)" by (rule f32r_ge_int [OF y])
  have hi: "f32r (real_of_int k * sc) \<le> of_int (k * 128)" using u by (rule f32r_le_int [OF y])
  show c: "ceilf (fmul (int_to_float k) (Fin sc)) = Fin (of_int (tolerance k sc))"
    using round32_le [OF b] by (simp add: k tolerance_def)
  show t0: "0 \<le> tolerance k sc" using lo by (simp add: tolerance_def)
  show t1: "tolerance k sc \<le> k * 128" using hi unfolding tolerance_def by (simp only: ceiling_le_iff)
  have "tolerance k sc \<le> 3840" using t1 assms(4) by simp
  then show "float_to_int (ceilf (fmul (int_to_float k) (Fin sc))) = Some (tolerance k sc)"
    using t0 by (simp add: c trunc0_def Let_def)
qed

lemma hitTest_defined:
  assumes "scale (layout s) = Fin sc" "0 \<le> sc" "sc \<le> 128"
    and "\<bar>pt_x p\<bar> \<le> 65536" "\<bar>pt_y p\<bar> \<le> 65536"
  shows "hitTest s p = Some (hit_region s (cursor_pos s p) (scaled sc (pt_x p))
           (scaled sc (pt_y p)) (tolerance 2 sc) (tolerance 8 sc))"
  using scaled_coord(1) [OF assms(2,3,4)] scaled_coord(1) [OF assms(2,3,5)]
    tolerance_exact(1) [OF assms(2,3), of 2] tolerance_exact(1) [OF assms(2,3), of 8]
  by (simp add: hitTest_def edgeTol_def cornerTol_def assms(1) cursor_pos_def Let_def)

lemma fadd_int_rounded:
  assumes "\<bar>a + b\<bar> < 2 ^ 24"
  shows "fadd (Fin (of_int a)) (Fin (of_int b)) = Fin (of_int (a + b))"
proof -
  have "\<bar>real_of_int (a + b)\<bar> < 2 ^ 24"
    using assms by (metis of_int_abs of_int_less_iff of_int_numeral of_int_power)
  then have "round32 (of_int (a + b)) = Fin (of_int (a + b))" by (simp add: round32_Ints)
  then show ?thesis by simp
qed

lemma fsub_int_rounded:
  assumes "\<bar>a - b\<bar> < 2 ^ 24"
  shows "fsub (Fin (of_int a)) (Fin (of_int b)) = Fin (of_int (a - b))"
  using fadd_int_rounded [of a "- b"] assms by (simp add: fsub_def)

lemmas big_eval = f32r_def quantum_def rne_def compute_floorlog round32_def

lemma layout_200x40:
  "layout app_200x40 =
     \<lparr>window = \<lparr>fr_x = Fin 0, fr_y = Fin 0, fr_w = Fin 200, fr_h = Fin 40\<rparr>,
      background = \<lparr>fr_x = Fin 16, fr_y = Fin 16, fr_w = Fin 168, fr_h = Fin 8\<rparr>,
      titleBar = \<lparr>fr_x = Fin 17, fr_y = Fin 17, fr_w = Fin 166, fr_h = Fin 30\<rparr>,
      clientArea = \<lparr>fr_x = Fin 17, fr_y = Fin 48, fr_w = Fin 166, fr_h = Fin (- 25)\<rparr>,
      scale = Fin 1\<rparr>"
  by (simp add: app_200x40_def updateLayout_def env_200x40_def init_app_def shadow16_def
      Let_def exact_ops)

lemma example_in_range: "in_exact_range 1 (env_800x600 1) (init_app shadow16)"
  by (simp add: in_exact_range_def env_800x600_def init_app_def shadow16_def)

lemma title_height_1: "title_height 1 = 30"
  by (simp add: title_height_def f32r_Ints)

text \<open>
  The rounding on known binary32 facts: the number nearest one tenth is
  \<open>13421773 / 2 ^ 27\<close>, \<open>2 ^ 24 + 1\<close> is a tie that goes to the even \<open>2 ^ 24\<close>, and
  \<open>2 ^ 24 + 3\<close> one that goes to \<open>2 ^ 24 + 4\<close>.
\<close>

lemma f32r_known_values:
  "f32r (1 / 10) = 13421773 / 2 ^ 27" "f32r 16777217 = 16777216" "f32r 16777219 = 16777220"
  by (simp_all add: big_eval)

text \<open>
  The product \<^verbatim>\<open>30 * scale\<close> is a single-precision one: at the binary32 number nearest
  1.1, which is a little above 1.1, it is 33 and so is the title bar height, while the
  real product is a little above 33.
\<close>

lemma title_height_scale_1_1:
  "f32r (11 / 10) = 9227469 / 2 ^ 23" "title_height (9227469 / 2 ^ 23) = 33"
  "\<lceil>30 * (9227469 / 2 ^ 23 :: real)\<rceil> = 34"
  by (simp_all add: title_height_def big_eval)

text \<open>
  Beyond the exact range the rounding alone breaks the nesting: in a window 536870977
  pixels high (scale 1.0, margins 16), large enough for the title bar and the client
  area, the background and the client area both get the height 536870976, and the
  bottom edge of the client area, 48 + 536870976, rounds above the bottom edge of the
  background, 16 + 536870976.
\<close>

lemma tall_window_not_nested:
  "2 * \<lfloor>1 :: real\<rfloor> \<le> pixel_w env_tall - 2 * tex_w (left (shadow (init_app shadow16)))"
  "3 * \<lfloor>1 :: real\<rfloor> + title_height 1 \<le>
     pixel_h env_tall - 2 * tex_h (bottom (shadow (init_app shadow16)))"
  "background (layout app_tall) =
     \<lparr>fr_x = Fin 16, fr_y = Fin 16, fr_w = Fin 768, fr_h = Fin 536870976\<rparr>"
  "clientArea (layout app_tall) =
     \<lparr>fr_x = Fin 17, fr_y = Fin 48, fr_w = Fin 766, fr_h = Fin 536870976\<rparr>"
  "fadd (Fin 48) (Fin 536870976) = Fin 536871040"
  "fadd (Fin 16) (Fin 536870976) = Fin 536870976"
  "\<not> rect_contained (clientArea (layout app_tall)) (background (layout app_tall))"
proof -
  have r: "round32 536870977 = Fin 536870976" "round32 536870945 = Fin 536870976"
    "round32 536870974 = Fin 536870976" "round32 536871024 = Fin 536871040"
    "round32 536870992 = Fin 536870976"
    by (simp_all add: big_eval)
  show b: "background (layout app_tall) =
      \<lparr>fr_x = Fin 16, fr_y = Fin 16, fr_w = Fin 768, fr_h = Fin 536870976\<rparr>"
    and c: "clientArea (layout app_tall) =
      \<lparr>fr_x = Fin 17, fr_y = Fin 48, fr_w = Fin 766, fr_h = Fin 536870976\<rparr>"
    by (simp_all add: app_tall_def env_tall_def updateLayout_def init_app_def shadow16_def
        Let_def exact_ops int_to_float_def r)
  show "fadd (Fin 48) (Fin 536870976) = Fin 536871040"
    "fadd (Fin 16) (Fin 536870976) = Fin 536870976"
    by (simp_all add: r)
  then show "\<not> rect_contained (clientArea (layout app_tall)) (background (layout app_tall))"
    by (simp add: b c rect_contained_def SDL_PointInRectFloat_def del: fadd.simps)
  show "2 * \<lfloor>1 :: real\<rfloor> \<le> pixel_w env_tall - 2 * tex_w (left (shadow (init_app shadow16)))"
    "3 * \<lfloor>1 :: real\<rfloor> + title_height 1 \<le>
      pixel_h env_tall - 2 * tex_h (bottom (shadow (init_app shadow16)))"
    by (simp_all add: env_tall_def init_app_def shadow16_def title_height_1)
qed

section \<open>The hit test on a platform\<close>

lemma hit_region_layout:
  "layout s' = layout s \<Longrightarrow> hit_region s' pos x y et ct = hit_region s pos x y et ct"
  by (simp add: hit_region_def left_border_def right_border_def top_border_def
      bottom_border_def top_corner_def bottom_corner_def)

lemma hitTest_on_layout:
  assumes "layout s' = layout s"
  shows "hitTest_on oor s' p = hitTest_on oor s p"
  unfolding hitTest_on_def Let_def cursor_pos_def
  using hit_region_layout [OF assms] by (simp add: assms)

lemma hitTest_on_Some:
  assumes "hitTest s p = Some r"
  shows "hitTest_on oor s p = r"
  using assms
  by (auto simp: hitTest_def hitTest_on_def convert_def edgeTol_def cornerTol_def Let_def
      split: option.splits)

lemma hit_region_precedence:
  "(hit_region s pos x y et ct = SDL_HITTEST_RESIZE_TOPLEFT) =
     (left_border s x et \<and> top_corner s y ct)"
  "(hit_region s pos x y et ct = SDL_HITTEST_RESIZE_BOTTOMLEFT) =
     (left_border s x et \<and> \<not> top_corner s y ct \<and> bottom_corner s y ct)"
  "(hit_region s pos x y et ct = SDL_HITTEST_RESIZE_LEFT) =
     (left_border s x et \<and> \<not> top_corner s y ct \<and> \<not> bottom_corner s y ct)"
  "(hit_region s pos x y et ct = SDL_HITTEST_RESIZE_TOPRIGHT) =
     (\<not> left_border s x et \<and> right_border s x et \<and> top_corner s y ct)"
  "(hit_region s pos x y et ct = SDL_HITTEST_RESIZE_BOTTOMRIGHT) =
     (\<not> left_border s x et \<and> right_border s x et \<and> \<not> top_corner s y ct \<and>
      bottom_corner s y ct)"
  "(hit_region s pos x y et ct = SDL_HITTEST_RESIZE_RIGHT) =
     (\<not> left_border s x et \<and> right_border s x et \<and> \<not> top_corner s y ct \<and>
      \<not> bottom_corner s y ct)"
  "(hit_region s pos x y et ct = SDL_HITTEST_RESIZE_TOP) =
     (\<not> left_border s x et \<and> \<not> right_border s x et \<and> top_border s y et)"
  "(hit_region s pos x y et ct = SDL_HITTEST_RESIZE_BOTTOM) =
     (\<not> left_border s x et \<and> \<not> right_border s x et \<and> \<not> top_border s y et \<and>
      bottom_border s y et)"
  "(hit_region s pos x y et ct = SDL_HITTEST_DRAGGABLE) =
     (\<not> left_border s x et \<and> \<not> right_border s x et \<and> \<not> top_border s y et \<and>
      \<not> bottom_border s y et \<and> SDL_PointInRectFloat pos (titleBar (layout s)))"
  "(hit_region s pos x y et ct = SDL_HITTEST_NORMAL) =
     (\<not> left_border s x et \<and> \<not> right_border s x et \<and> \<not> top_border s y et \<and>
      \<not> bottom_border s y et \<and> \<not> SDL_PointInRectFloat pos (titleBar (layout s)))"
  by (simp_all add: hit_region_def)

lemma layout_800x600_2:
  "layout (app_800x600 2) =
     \<lparr>window = \<lparr>fr_x = Fin 0, fr_y = Fin 0, fr_w = Fin 800, fr_h = Fin 600\<rparr>,
      background = \<lparr>fr_x = Fin 16, fr_y = Fin 16, fr_w = Fin 768, fr_h = Fin 568\<rparr>,
      titleBar = \<lparr>fr_x = Fin 18, fr_y = Fin 18, fr_w = Fin 764, fr_h = Fin 60\<rparr>,
      clientArea = \<lparr>fr_x = Fin 18, fr_y = Fin 80, fr_w = Fin 764, fr_h = Fin 502\<rparr>,
      scale = Fin 2\<rparr>"
  by (simp add: app_800x600_def updateLayout_def env_800x600_def init_app_def shadow16_def
      Let_def exact_ops)

lemma far_point_region:
  "hitTest_on int_indefinite (app_800x600 2) \<lparr>pt_x = 1073741824, pt_y = 0\<rparr> =
     SDL_HITTEST_NORMAL"
proof -
  have r: "round32 1073741824 = Fin 1073741824" "round32 2147483648 = Fin 2147483648"
    "round32 (- 2147483648) = Fin (- 2147483648)"
    by (simp_all add: big_eval)
  have px: "fpt_x (cursor_pos (app_800x600 2) \<lparr>pt_x = 1073741824, pt_y = 0\<rparr>) = Fin 2147483648"
    and py: "fpt_y (cursor_pos (app_800x600 2) \<lparr>pt_x = 1073741824, pt_y = 0\<rparr>) = Fin 0"
    by (simp_all add: cursor_pos_def layout_800x600_2 int_to_float_def r exact_ops)
  have cx: "convert int_indefinite (Fin 2147483648) = - 2147483648"
    and cy: "convert int_indefinite (Fin 0) = 0"
    by (simp_all add: convert_def int_indefinite_def trunc0_def Let_def)
  have et: "convert int_indefinite (ceilf (fmul (int_to_float 2) (Fin 2))) = 4"
    and ct: "convert int_indefinite (ceilf (fmul (int_to_float 8) (Fin 2))) = 16"
    by (simp_all add: convert_def trunc0_def Let_def exact_ops)
  have i: "int_to_float (- 2147483648) = Fin (- 2147483648)"
    by (simp add: int_to_float_def r)
  have "hit_region (app_800x600 2) \<lparr>fpt_x = Fin 2147483648, fpt_y = Fin 0\<rparr>
      (- 2147483648) 0 4 16 = SDL_HITTEST_NORMAL"
    by (simp add: hit_region_def left_border_def right_border_def top_border_def
        bottom_border_def SDL_PointInRectFloat_def layout_800x600_2 Let_def i exact_ops)
  moreover have "cursor_pos (app_800x600 2) \<lparr>pt_x = 1073741824, pt_y = 0\<rparr> =
      \<lparr>fpt_x = Fin 2147483648, fpt_y = Fin 0\<rparr>"
    using px py by (simp add: cursor_pos_def)
  ultimately show ?thesis
    unfolding hitTest_on_def Let_def
    by (simp only: px py cx cy et ct layout_800x600_2 layout_t.simps SDL_FPoint.simps)
qed

lemma hitTest_at_8_8:
  "hitTest (app_800x600 1) \<lparr>pt_x = 8, pt_y = 8\<rparr> = Some SDL_HITTEST_NORMAL"
  by (simp add: hit_defs layout_800x600_1 exact_ops)

section \<open>The title bar height and the real product\<close>

lemma title_height_near_ceiling:
  assumes "0 < x" "30 * x < 2 ^ 24"
  shows "ceilf (fmul (int_to_float 30) (Fin x)) = Fin (of_int (title_height x))"
    and "\<lceil>30 * x\<rceil> - 1 \<le> title_height x"
    and "title_height x \<le> \<lceil>30 * x\<rceil>"
proof -
  define y where "y = 30 * x"
  have y: "\<bar>y\<bar> < 2 ^ 24" and y0: "0 < y" using assms by (simp_all add: y_def)
  have lo: "of_int \<lfloor>y\<rfloor> \<le> f32r y"
    by (rule f32r_ge_int [OF y]) simp
  have hi: "f32r y \<le> of_int \<lceil>y\<rceil>"
    by (rule f32r_le_int [OF y]) simp
  have "of_int 0 \<le> y" using y0 by simp
  then have n: "of_int 0 \<le> f32r y" by (rule f32r_ge_int [OF y])
  have "y \<le> of_int (2 ^ 24)" using y by simp
  then have "f32r y \<le> of_int (2 ^ 24)" by (rule f32r_le_int [OF y])
  then have "\<bar>f32r y\<bar> < 2 ^ 128" using n by simp
  then have "round32 y = Fin (f32r y)" by (simp add: round32_def)
  then show "ceilf (fmul (int_to_float 30) (Fin x)) = Fin (of_int (title_height x))"
    by (simp add: int_to_float_exact title_height_def y_def)
  have "real_of_int \<lfloor>y\<rfloor> \<le> of_int \<lceil>f32r y\<rceil>"
    using lo by (rule order_trans) simp
  then have "\<lfloor>y\<rfloor> \<le> \<lceil>f32r y\<rceil>" by (simp only: of_int_le_iff)
  moreover have "\<lceil>y\<rceil> \<le> \<lfloor>y\<rfloor> + 1" by (simp add: ceiling_le_iff)
  ultimately show "\<lceil>30 * x\<rceil> - 1 \<le> title_height x"
    by (simp add: title_height_def y_def)
  show "title_height x \<le> \<lceil>30 * x\<rceil>"
    using hi by (simp add: title_height_def y_def ceiling_le_iff)
qed

lemma title_height_exact:
  "f32r (30 * x) = 30 * x \<Longrightarrow> title_height x = \<lceil>30 * x\<rceil>"
  by (simp add: title_height_def)

lemma titleBar_h:
  "fr_h (titleBar (layout (updateLayout env s))) =
     ceilf (fmul (int_to_float 30) (display_scale env))"
  by (simp add: updateLayout_def Let_def)

section \<open>The claims\<close>

text \<open>
  C8. Every call of \<^verbatim>\<open>updateLayout\<close> leaves \<^verbatim>\<open>windowShouldBeRedrawn\<close> set, whatever the
  environment answers and whatever the state before the call was: also when the flag
  was clear and the new layout is the one the state already had.
\<close>

theorem updateLayout_sets_dirty:
  "windowShouldBeRedrawn (updateLayout env s) \<and>
   windowShouldBeRedrawn (updateLayout env ((updateLayout env s)\<lparr>windowShouldBeRedrawn := False\<rparr>))"
  by (simp add: updateLayout_def Let_def)

text \<open>
  C9. An event whose type is none of quit, window exposed, pixel size changed, display
  scale changed and system theme changed leaves every global as it was.
\<close>

theorem handleEvent_other_unchanged:
  "ev \<notin> {SDL_EVENT_QUIT, SDL_EVENT_WINDOW_EXPOSED, SDL_EVENT_WINDOW_PIXEL_SIZE_CHANGED,
          SDL_EVENT_WINDOW_DISPLAY_SCALE_CHANGED, SDL_EVENT_SYSTEM_THEME_CHANGED}
   \<Longrightarrow> handleEvent env ev s = s"
  by (cases ev) simp_all

theorem handleEvent_other_unchanged_witness:
  "SDL_EVENT_OTHER 1024 \<notin> {SDL_EVENT_QUIT, SDL_EVENT_WINDOW_EXPOSED,
      SDL_EVENT_WINDOW_PIXEL_SIZE_CHANGED, SDL_EVENT_WINDOW_DISPLAY_SCALE_CHANGED,
      SDL_EVENT_SYSTEM_THEME_CHANGED} \<and>
   handleEvent (env_800x600 1) (SDL_EVENT_OTHER 1024) (init_app shadow16) = init_app shadow16"
  using handleEvent_other_unchanged [of "SDL_EVENT_OTHER 1024" "env_800x600 1" "init_app shadow16"]
  by simp

text \<open>
  C10. In every reachable state the light and the dark palette are the ones of the
  initialiser, and handling an event, whichever it is and in whichever state, writes of
  the theme at most the \<^verbatim>\<open>useLight\<close> flag.
\<close>

theorem palettes_constant:
  "(reachable sh s \<longrightarrow> light (theme s) = light theme_init \<and> dark (theme s) = dark theme_init) \<and>
   (\<exists>u. theme (handleEvent env ev s') = (theme s')\<lparr>useLight := u\<rparr>)"
proof
  show "reachable sh s \<longrightarrow> light (theme s) = light theme_init \<and> dark (theme s) = dark theme_init"
    by (simp add: reachable_palettes)
  show "\<exists>u. theme (handleEvent env ev s') = (theme s')\<lparr>useLight := u\<rparr>"
  proof (cases ev)
    case SDL_EVENT_SYSTEM_THEME_CHANGED
    then show ?thesis by auto
  next
    case SDL_EVENT_QUIT
    then have "theme (handleEvent env ev s') = (theme s')\<lparr>useLight := useLight (theme s')\<rparr>"
      by simp
    then show ?thesis ..
  next
    case SDL_EVENT_WINDOW_EXPOSED
    then have "theme (handleEvent env ev s') = (theme s')\<lparr>useLight := useLight (theme s')\<rparr>"
      by simp
    then show ?thesis ..
  next
    case SDL_EVENT_WINDOW_PIXEL_SIZE_CHANGED
    then have "theme (handleEvent env ev s') = (theme s')\<lparr>useLight := useLight (theme s')\<rparr>"
      by (simp add: updateLayout_theme)
    then show ?thesis ..
  next
    case SDL_EVENT_WINDOW_DISPLAY_SCALE_CHANGED
    then have "theme (handleEvent env ev s') = (theme s')\<lparr>useLight := useLight (theme s')\<rparr>"
      by (simp add: updateLayout_theme)
    then show ?thesis ..
  next
    case (SDL_EVENT_OTHER n)
    then have "theme (handleEvent env ev s') = (theme s')\<lparr>useLight := useLight (theme s')\<rparr>"
      by simp
    then show ?thesis ..
  qed
qed

theorem palettes_constant_witness:
  "reachable shadow16 (main_startup (env_800x600 1) (init_app shadow16)) \<and>
   light (theme (main_startup (env_800x600 1) (init_app shadow16))) =
     \<lparr>border = rgba 200 200 200 255, pal_background = rgba 227 227 227 255,
      pal_titleBar = rgba 255 255 255 255\<rparr> \<and>
   dark (theme (main_startup (env_800x600 1) (init_app shadow16))) =
     \<lparr>border = rgba 55 55 55 255, pal_background = rgba 27 27 27 255,
      pal_titleBar = rgba 0 0 0 255\<rparr>"
proof -
  have r: "reachable shadow16 (main_startup (env_800x600 1) (init_app shadow16))"
    by (rule reachable.startup)
  from palettes_constant [of shadow16 "main_startup (env_800x600 1) (init_app shadow16)"] r
  show ?thesis by (simp add: theme_init_def)
qed

text \<open>
  C5, as stated, fails. At the binary32 number nearest 1.1, which is
  \<open>9227469 / 2 ^ 23\<close> and a little above 1.1, the product of 30 and the scale is a little
  above 33 and its ceiling is 34; the single-precision product is 33, and \<^verbatim>\<open>updateLayout\<close>
  sets the title bar height to 33.
\<close>

theorem titleBar_height_below_ceiling:
  "0 < (9227469 / 2 ^ 23 :: real) \<and>
   f32r (11 / 10) = 9227469 / 2 ^ 23 \<and>
   fr_h (titleBar (layout (app_800x600 (9227469 / 2 ^ 23)))) = Fin 33 \<and>
   \<lceil>30 * (9227469 / 2 ^ 23 :: real)\<rceil> = 34"
proof -
  have "round32 (30 * (9227469 / 2 ^ 23)) = Fin 33"
    by (simp add: big_eval)
  then have "fr_h (titleBar (layout (app_800x600 (9227469 / 2 ^ 23)))) = Fin 33"
    by (simp add: app_800x600_def titleBar_h env_800x600_def int_to_float_exact)
  then show ?thesis using title_height_scale_1_1 by simp
qed

text \<open>
  C5, amended. For a positive finite scale \<open>x\<close> with \<open>30 * x\<close> below \<open>2 ^ 24\<close>,
  \<^verbatim>\<open>updateLayout\<close> sets the height of the title bar to an integer, the ceiling of the
  single-precision product of 30 and the scale. That integer is the ceiling of
  \<open>30 * x\<close> or one less, and it is the ceiling of \<open>30 * x\<close> whenever \<open>30 * x\<close> is a binary32
  number. In the 800 by 600 window with shadow margins of 16, a display-scale event
  that changes the scale from 1.0 to 1.5 changes the title bar height from 30 to 45
  and the client height from 535 to 520, and sets \<^verbatim>\<open>windowShouldBeRedrawn\<close> that the
  loop had cleared.
\<close>

theorem titleBar_height:
  "(display_scale env = Fin x \<and> 0 < x \<and> 30 * x < 2 ^ 24 \<longrightarrow>
      fr_h (titleBar (layout (updateLayout env s))) = Fin (of_int (title_height x)) \<and>
      \<lceil>30 * x\<rceil> - 1 \<le> title_height x \<and> title_height x \<le> \<lceil>30 * x\<rceil> \<and>
      (f32r (30 * x) = 30 * x \<longrightarrow> title_height x = \<lceil>30 * x\<rceil>)) \<and>
   fr_h (titleBar (layout (app_800x600 1))) = Fin 30 \<and>
   fr_h (clientArea (layout (app_800x600 1))) = Fin 535 \<and>
   fr_h (titleBar (layout (handleEvent (env_800x600 (3/2)) SDL_EVENT_WINDOW_DISPLAY_SCALE_CHANGED
     ((app_800x600 1)\<lparr>windowShouldBeRedrawn := False\<rparr>)))) = Fin 45 \<and>
   fr_h (clientArea (layout (handleEvent (env_800x600 (3/2)) SDL_EVENT_WINDOW_DISPLAY_SCALE_CHANGED
     ((app_800x600 1)\<lparr>windowShouldBeRedrawn := False\<rparr>)))) = Fin 520 \<and>
   windowShouldBeRedrawn (handleEvent (env_800x600 (3/2)) SDL_EVENT_WINDOW_DISPLAY_SCALE_CHANGED
     ((app_800x600 1)\<lparr>windowShouldBeRedrawn := False\<rparr>))"
proof -
  have sh: "shadow ((app_800x600 1)\<lparr>windowShouldBeRedrawn := False\<rparr>) = shadow16"
    by (simp add: app_800x600_def updateLayout_shadow init_app_def)
  have g: "display_scale env = Fin x \<and> 0 < x \<and> 30 * x < 2 ^ 24 \<longrightarrow>
      fr_h (titleBar (layout (updateLayout env s))) = Fin (of_int (title_height x)) \<and>
      \<lceil>30 * x\<rceil> - 1 \<le> title_height x \<and> title_height x \<le> \<lceil>30 * x\<rceil> \<and>
      (f32r (30 * x) = 30 * x \<longrightarrow> title_height x = \<lceil>30 * x\<rceil>)"
    using title_height_near_ceiling [of x] title_height_exact [of x]
    by (simp add: titleBar_h)
  have w: "windowShouldBeRedrawn (updateLayout (env_800x600 (3/2))
      ((app_800x600 1)\<lparr>windowShouldBeRedrawn := False\<rparr>))"
    by (simp add: updateLayout_def Let_def)
  have c: "fr_h (titleBar (layout (app_800x600 1))) = Fin 30 \<and>
      fr_h (clientArea (layout (app_800x600 1))) = Fin 535 \<and>
      fr_h (titleBar (layout (handleEvent (env_800x600 (3/2))
        SDL_EVENT_WINDOW_DISPLAY_SCALE_CHANGED
        ((app_800x600 1)\<lparr>windowShouldBeRedrawn := False\<rparr>)))) = Fin 45 \<and>
      fr_h (clientArea (layout (handleEvent (env_800x600 (3/2))
        SDL_EVENT_WINDOW_DISPLAY_SCALE_CHANGED
        ((app_800x600 1)\<lparr>windowShouldBeRedrawn := False\<rparr>)))) = Fin 520 \<and>
      windowShouldBeRedrawn (handleEvent (env_800x600 (3/2))
        SDL_EVENT_WINDOW_DISPLAY_SCALE_CHANGED
        ((app_800x600 1)\<lparr>windowShouldBeRedrawn := False\<rparr>))"
    using w by (simp add: layout_800x600_1 layout_800x600_15 [OF sh])
  from g c show ?thesis by blast
qed

theorem titleBar_height_witness:
  "display_scale (env_800x600 (3/2)) = Fin (3/2) \<and> (0 :: real) < 3/2 \<and>
   30 * (3/2 :: real) < 2 ^ 24 \<and>
   f32r (30 * (3/2)) = 30 * (3/2) \<and>
   fr_h (titleBar (layout (updateLayout (env_800x600 (3/2)) (init_app shadow16)))) = Fin 45 \<and>
   title_height (3/2) = 45"
proof -
  have e: "f32r (30 * (3/2)) = 30 * (3/2)"
    by (simp add: f32r_Ints)
  have d: "display_scale (env_800x600 (3/2)) = Fin (3/2)"
    by (simp add: env_800x600_def)
  from titleBar_height [of "env_800x600 (3/2)" "3/2" "init_app shadow16"] e d
  show ?thesis by simp
qed

text \<open>
  C6. A second call of \<^verbatim>\<open>updateLayout\<close> with the same answers of the library changes
  nothing, and the layout it computes is a function of those answers and of the shadow
  textures alone: it does not depend on the layout, the theme or the flags before the
  call.
\<close>

theorem updateLayout_idempotent:
  "updateLayout env (updateLayout env s) = updateLayout env s \<and>
   (shadow s' = shadow s \<longrightarrow> layout (updateLayout env s') = layout (updateLayout env s))"
  by (simp add: updateLayout_def Let_def)

theorem updateLayout_idempotent_witness:
  "shadow ((app_800x600 (3/2))\<lparr>windowShouldBeRedrawn := False\<rparr>) = shadow (init_app shadow16) \<and>
   layout (updateLayout (env_800x600 1) ((app_800x600 (3/2))\<lparr>windowShouldBeRedrawn := False\<rparr>)) =
   layout (updateLayout (env_800x600 1) (init_app shadow16))"
  using updateLayout_idempotent [of "env_800x600 1" "init_app shadow16"
      "(app_800x600 (3/2))\<lparr>windowShouldBeRedrawn := False\<rparr>"]
  by (simp add: app_800x600_def updateLayout_shadow)

text \<open>
  C7. In the 800 by 600 window at scale 1.0 with shadow margins of 16, the tolerances
  are 2 and 8 and the background starts at x = 16; the cursor at (8, 8) converts to
  (8, 8); the left border band is met at 14 and at 18 and missed at 13, at 19 and at 8;
  the point misses the right, top and bottom bands and the title bar, and \<^verbatim>\<open>hitTest\<close>
  returns \<^verbatim>\<open>SDL_HITTEST_NORMAL\<close>.
\<close>

theorem hitTest_shadow_margin:
  "edgeTol (app_800x600 1) = Some 2 \<and>
   cornerTol (app_800x600 1) = Some 8 \<and>
   fr_x (background (layout (app_800x600 1))) = Fin 16 \<and>
   float_to_int (fpt_x (cursor_pos (app_800x600 1) \<lparr>pt_x = 8, pt_y = 8\<rparr>)) = Some 8 \<and>
   float_to_int (fpt_y (cursor_pos (app_800x600 1) \<lparr>pt_x = 8, pt_y = 8\<rparr>)) = Some 8 \<and>
   left_border (app_800x600 1) 14 2 \<and>
   left_border (app_800x600 1) 18 2 \<and>
   \<not> left_border (app_800x600 1) 13 2 \<and>
   \<not> left_border (app_800x600 1) 19 2 \<and>
   \<not> left_border (app_800x600 1) 8 2 \<and>
   \<not> right_border (app_800x600 1) 8 2 \<and>
   \<not> top_border (app_800x600 1) 8 2 \<and>
   \<not> bottom_border (app_800x600 1) 8 2 \<and>
   \<not> SDL_PointInRectFloat (cursor_pos (app_800x600 1) \<lparr>pt_x = 8, pt_y = 8\<rparr>)
       (titleBar (layout (app_800x600 1))) \<and>
   hitTest (app_800x600 1) \<lparr>pt_x = 8, pt_y = 8\<rparr> = Some SDL_HITTEST_NORMAL"
  by (simp add: hit_defs layout_800x600_1 exact_ops)

text \<open>
  C1, as stated, fails. A window of 200 by 40 pixels at scale 1.0 with shadow margins of
  16 has a background of height 8 that starts at y = 16, and a title bar of height 30
  that starts at y = 17: the title bar is not contained in the background.
\<close>

theorem small_window_not_nested:
  "0 < pixel_w env_200x40 \<and> 0 < pixel_h env_200x40 \<and> display_scale env_200x40 = Fin 1 \<and>
   fr_y (background (layout app_200x40)) = Fin 16 \<and>
   fr_h (background (layout app_200x40)) = Fin 8 \<and>
   fr_y (titleBar (layout app_200x40)) = Fin 17 \<and>
   fr_h (titleBar (layout app_200x40)) = Fin 30 \<and>
   \<not> rect_contained (titleBar (layout app_200x40)) (background (layout app_200x40)) \<and>
   \<not> nested_layout (layout app_200x40)"
  by (simp add: layout_200x40 nested_layout_def rect_contained_def SDL_PointInRectFloat_def
      exact_ops env_200x40_def)

text \<open>
  C1, amended. For inputs in the exact range (positive window sizes up to \<open>2 ^ 20\<close>,
  shadow textures up to \<open>2 ^ 16\<close>, a positive scale up to 128) that leave the title bar
  a width and the client area a height that is not negative, that is
  \<open>2 * floor(scale) \<le> w - 2 * left.w\<close> and
  \<open>3 * floor(scale) + ceilf(30 * scale) \<le> h - 2 * bottom.h\<close>, the layout of
  \<^verbatim>\<open>updateLayout\<close> is nested: the background is contained in the window, the title bar
  and the client area are contained in the background, the client area has the x and
  the width of the title bar, and its y is the title bar's y plus the title bar's
  height plus \<open>floor(scale)\<close>.
\<close>

theorem rectangles_nested:
  assumes r: "in_exact_range sc env s"
    and w: "2 * \<lfloor>sc\<rfloor> \<le> pixel_w env - 2 * tex_w (left (shadow s))"
    and h: "3 * \<lfloor>sc\<rfloor> + title_height sc \<le> pixel_h env - 2 * tex_h (bottom (shadow s))"
  shows "nested_layout (layout (updateLayout env s))"
proof -
  define W where "W = real_of_int (pixel_w env)"
  define H where "H = real_of_int (pixel_h env)"
  define A where "A = real_of_int (tex_w (left (shadow s)))"
  define B where "B = real_of_int (tex_h (bottom (shadow s)))"
  define F where "F = real_of_int \<lfloor>sc\<rfloor>"
  define T where "T = real_of_int (title_height sc)"
  have Z: "W \<in> \<int>" "H \<in> \<int>" "A \<in> \<int>" "B \<in> \<int>" "F \<in> \<int>" "T \<in> \<int>"
    by (simp_all add: W_def H_def A_def B_def F_def T_def)
  from r have sc: "0 < sc" "sc \<le> 128" by (simp_all add: in_exact_range_def)
  have "0 \<le> \<lfloor>sc\<rfloor>" "\<lfloor>sc\<rfloor> \<le> 128" using sc by (simp_all add: floor_le_iff le_floor_iff)
  then have F: "0 \<le> F" "F \<le> 128" by (simp_all only: F_def of_int_0_le_iff of_int_le_numeral_iff)
  have "0 \<le> title_height sc" "title_height sc \<le> 3840"
    using title_height_bounds [OF sc] by simp_all
  then have T: "0 \<le> T" "T \<le> 3840" by (simp_all only: T_def of_int_0_le_iff of_int_le_numeral_iff)
  from r have b: "0 < W" "W \<le> 1048576" "0 < H" "H \<le> 1048576"
      "0 \<le> A" "A \<le> 65536" "0 \<le> B" "B \<le> 65536"
    by (simp_all add: in_exact_range_def W_def H_def A_def B_def)
  have "real_of_int (2 * \<lfloor>sc\<rfloor>) \<le> real_of_int (pixel_w env - 2 * tex_w (left (shadow s)))"
    using w by (simp only: of_int_le_iff)
  then have w': "2 * F \<le> W - 2 * A" by (simp add: F_def W_def A_def)
  have "real_of_int (3 * \<lfloor>sc\<rfloor> + title_height sc) \<le>
      real_of_int (pixel_h env - 2 * tex_h (bottom (shadow s)))"
    using h by (simp only: of_int_le_iff)
  then have h': "3 * F + T \<le> H - 2 * B" by (simp add: F_def T_def H_def B_def)
  have L: "layout (updateLayout env s) =
      \<lparr>window = \<lparr>fr_x = Fin 0, fr_y = Fin 0, fr_w = Fin W, fr_h = Fin H\<rparr>,
       background = \<lparr>fr_x = Fin A, fr_y = Fin B, fr_w = Fin (W - 2 * A), fr_h = Fin (H - 2 * B)\<rparr>,
       titleBar = \<lparr>fr_x = Fin (A + F), fr_y = Fin (B + F),
         fr_w = Fin (W - 2 * A - 2 * F), fr_h = Fin T\<rparr>,
       clientArea = \<lparr>fr_x = Fin (A + F), fr_y = Fin (B + F + T + F),
         fr_w = Fin (W - 2 * A - 2 * F), fr_h = Fin (H - 2 * B - 2 * F - (T + F))\<rparr>,
       scale = Fin sc\<rparr>"
    unfolding layout_exact [OF r] Let_def W_def H_def A_def B_def F_def T_def by simp
  have c1: "rect_contained \<lparr>fr_x = Fin A, fr_y = Fin B, fr_w = Fin (W - 2 * A), fr_h = Fin (H - 2 * B)\<rparr>
      \<lparr>fr_x = Fin 0, fr_y = Fin 0, fr_w = Fin W, fr_h = Fin H\<rparr>"
  proof (subst rect_contained_exact)
    show "A + (W - 2 * A) \<in> \<int>" "B + (H - 2 * B) \<in> \<int>" "0 + W \<in> \<int>" "0 + H \<in> \<int>"
      using Z by simp_all
    show "\<bar>A + (W - 2 * A)\<bar> < 2 ^ 24" "\<bar>B + (H - 2 * B)\<bar> < 2 ^ 24"
        "\<bar>0 + W\<bar> < 2 ^ 24" "\<bar>0 + H\<bar> < 2 ^ 24"
      using b w' h' F T by simp_all
    show "0 \<le> A \<and> A \<le> 0 + W \<and> 0 \<le> B \<and> B \<le> 0 + H \<and> 0 \<le> A + (W - 2 * A) \<and>
        A + (W - 2 * A) \<le> 0 + W \<and> 0 \<le> B + (H - 2 * B) \<and> B + (H - 2 * B) \<le> 0 + H"
      using b w' h' F T by simp
  qed
  have c2: "rect_contained \<lparr>fr_x = Fin (A + F), fr_y = Fin (B + F),
         fr_w = Fin (W - 2 * A - 2 * F), fr_h = Fin T\<rparr>
      \<lparr>fr_x = Fin A, fr_y = Fin B, fr_w = Fin (W - 2 * A), fr_h = Fin (H - 2 * B)\<rparr>"
  proof (subst rect_contained_exact)
    show "A + F + (W - 2 * A - 2 * F) \<in> \<int>" "B + F + T \<in> \<int>"
        "A + (W - 2 * A) \<in> \<int>" "B + (H - 2 * B) \<in> \<int>"
      using Z by simp_all
    show "\<bar>A + F + (W - 2 * A - 2 * F)\<bar> < 2 ^ 24" "\<bar>B + F + T\<bar> < 2 ^ 24"
        "\<bar>A + (W - 2 * A)\<bar> < 2 ^ 24" "\<bar>B + (H - 2 * B)\<bar> < 2 ^ 24"
      using b w' h' F T by simp_all
    show "A \<le> A + F \<and> A + F \<le> A + (W - 2 * A) \<and> B \<le> B + F \<and> B + F \<le> B + (H - 2 * B) \<and>
        A \<le> A + F + (W - 2 * A - 2 * F) \<and> A + F + (W - 2 * A - 2 * F) \<le> A + (W - 2 * A) \<and>
        B \<le> B + F + T \<and> B + F + T \<le> B + (H - 2 * B)"
      using b w' h' F T by simp
  qed
  have c3: "rect_contained \<lparr>fr_x = Fin (A + F), fr_y = Fin (B + F + T + F),
         fr_w = Fin (W - 2 * A - 2 * F), fr_h = Fin (H - 2 * B - 2 * F - (T + F))\<rparr>
      \<lparr>fr_x = Fin A, fr_y = Fin B, fr_w = Fin (W - 2 * A), fr_h = Fin (H - 2 * B)\<rparr>"
  proof (subst rect_contained_exact)
    show "A + F + (W - 2 * A - 2 * F) \<in> \<int>"
        "B + F + T + F + (H - 2 * B - 2 * F - (T + F)) \<in> \<int>"
        "A + (W - 2 * A) \<in> \<int>" "B + (H - 2 * B) \<in> \<int>"
      using Z by simp_all
    show "\<bar>A + F + (W - 2 * A - 2 * F)\<bar> < 2 ^ 24"
        "\<bar>B + F + T + F + (H - 2 * B - 2 * F - (T + F))\<bar> < 2 ^ 24"
        "\<bar>A + (W - 2 * A)\<bar> < 2 ^ 24" "\<bar>B + (H - 2 * B)\<bar> < 2 ^ 24"
      using b w' h' F T by simp_all
    show "A \<le> A + F \<and> A + F \<le> A + (W - 2 * A) \<and> B \<le> B + F + T + F \<and>
        B + F + T + F \<le> B + (H - 2 * B) \<and>
        A \<le> A + F + (W - 2 * A - 2 * F) \<and> A + F + (W - 2 * A - 2 * F) \<le> A + (W - 2 * A) \<and>
        B \<le> B + F + T + F + (H - 2 * B - 2 * F - (T + F)) \<and>
        B + F + T + F + (H - 2 * B - 2 * F - (T + F)) \<le> B + (H - 2 * B)"
      using b w' h' F T by simp
  qed
  have y1: "fadd (Fin (B + F)) (Fin T) = Fin (B + F + T)"
    using Z b F T by (simp add: round32_Ints)
  have y2: "fadd (Fin (B + F + T)) (Fin F) = Fin (B + F + T + F)"
    using Z b F T by (simp add: round32_Ints)
  have fl: "floorf (Fin sc) = Fin F" by (simp add: F_def)
  show ?thesis
    unfolding nested_layout_def L
    by (simp only: layout_t.simps SDL_FRect.simps c1 c2 c3 y1 y2 fl simp_thms)
qed

theorem rectangles_nested_witness:
  "in_exact_range 1 (env_800x600 1) (init_app shadow16) \<and>
   2 * \<lfloor>1 :: real\<rfloor> \<le> pixel_w (env_800x600 1) - 2 * tex_w (left (shadow (init_app shadow16))) \<and>
   3 * \<lfloor>1 :: real\<rfloor> + title_height 1 \<le>
     pixel_h (env_800x600 1) - 2 * tex_h (bottom (shadow (init_app shadow16))) \<and>
   nested_layout (layout (app_800x600 1))"
proof -
  have w: "2 * \<lfloor>1 :: real\<rfloor> \<le>
      pixel_w (env_800x600 1) - 2 * tex_w (left (shadow (init_app shadow16)))"
    by (simp add: env_800x600_def init_app_def shadow16_def)
  have h: "3 * \<lfloor>1 :: real\<rfloor> + title_height 1 \<le>
      pixel_h (env_800x600 1) - 2 * tex_h (bottom (shadow (init_app shadow16)))"
    by (simp add: env_800x600_def init_app_def shadow16_def title_height_1)
  from rectangles_nested [OF example_in_range w h] example_in_range w h
  show ?thesis by (simp only: app_800x600_def simp_thms)
qed

text \<open>
  C2, as stated, fails. In the 800 by 600 window at scale 1.0 with shadow margins of 16
  the cursor at (16, 0) is on the left border band, its y = 0 is not within the corner
  tolerance 8 of the top edge at y = 16, and \<^verbatim>\<open>hitTest\<close> returns the top left corner.
\<close>

theorem corner_beyond_tolerance:
  "float_to_int (fpt_x (cursor_pos (app_800x600 1) \<lparr>pt_x = 16, pt_y = 0\<rparr>)) = Some 16 \<and>
   float_to_int (fpt_y (cursor_pos (app_800x600 1) \<lparr>pt_x = 16, pt_y = 0\<rparr>)) = Some 0 \<and>
   edgeTol (app_800x600 1) = Some 2 \<and>
   cornerTol (app_800x600 1) = Some 8 \<and>
   fr_x (background (layout (app_800x600 1))) = Fin 16 \<and>
   fr_y (background (layout (app_800x600 1))) = Fin 16 \<and>
   within_tolerance 16 (Fin 16) 2 \<and>
   \<not> within_tolerance 0 (Fin 16) 8 \<and>
   hitTest (app_800x600 1) \<lparr>pt_x = 16, pt_y = 0\<rparr> = Some SDL_HITTEST_RESIZE_TOPLEFT"
  by (simp add: hit_defs within_tolerance_def layout_800x600_1 exact_ops)

text \<open>
  C2, amended. For inputs of \<^verbatim>\<open>updateLayout\<close> in the exact range and a cursor point with
  coordinates up to \<open>2 ^ 16\<close> in magnitude whose converted x lies within
  \<^verbatim>\<open>edgeTol\<close> of the left edge of the background, \<^verbatim>\<open>hitTest\<close> returns the top left corner
  exactly when the converted y is below the top edge plus \<^verbatim>\<open>cornerTol\<close> (however far
  above the top edge it is), the bottom left corner exactly when it is not and the
  converted y is at least the bottom edge less \<^verbatim>\<open>cornerTol\<close> (however far below the
  bottom edge it is), and the left border otherwise.
\<close>

theorem left_border_regions:
  assumes r: "in_exact_range sc env s0"
    and px: "\<bar>pt_x p\<bar> \<le> 65536" and py: "\<bar>pt_y p\<bar> \<le> 65536"
    and band: "\<bar>scaled sc (pt_x p) - tex_w (left (shadow s0))\<bar> \<le> tolerance 2 sc"
  shows "hitTest (updateLayout env s0) p =
    Some (if scaled sc (pt_y p) < tex_h (bottom (shadow s0)) + tolerance 8 sc
          then SDL_HITTEST_RESIZE_TOPLEFT
          else if pixel_h env - tex_h (bottom (shadow s0)) - tolerance 8 sc \<le> scaled sc (pt_y p)
          then SDL_HITTEST_RESIZE_BOTTOMLEFT
          else SDL_HITTEST_RESIZE_LEFT)"
proof -
  define s where "s = updateLayout env s0"
  define x where "x = scaled sc (pt_x p)"
  define y where "y = scaled sc (pt_y p)"
  define et where "et = tolerance 2 sc"
  define ct where "ct = tolerance 8 sc"
  define a where "a = tex_w (left (shadow s0))"
  define b where "b = tex_h (bottom (shadow s0))"
  define h where "h = pixel_h env"
  from r have sc: "0 \<le> sc" "sc \<le> 128"
    and bnd: "0 \<le> a" "a \<le> 65536" "0 \<le> b" "b \<le> 65536" "0 < h" "h \<le> 1048576"
    by (simp_all add: in_exact_range_def a_def b_def h_def)
  have x: "\<bar>x\<bar> \<le> 8388608" and y: "\<bar>y\<bar> \<le> 8388608"
    using scaled_coord(2) [OF sc px] scaled_coord(2) [OF sc py] by (simp_all add: x_def y_def)
  have et: "0 \<le> et" "et \<le> 256" and ct: "0 \<le> ct" "ct \<le> 1024"
    using tolerance_exact(3,4) [OF sc, of 2] tolerance_exact(3,4) [OF sc, of 8]
    by (simp_all add: et_def ct_def)
  have bg: "fr_x (background (layout s)) = Fin (of_int a)"
      "fr_y (background (layout s)) = Fin (of_int b)"
      "fr_h (background (layout s)) = Fin (of_int (h - 2 * b))"
    and scl: "scale (layout s) = Fin sc"
    unfolding s_def layout_exact [OF r] Let_def a_def b_def h_def by simp_all
  have conv: "int_to_float x = Fin (of_int x)" "int_to_float y = Fin (of_int y)"
      "int_to_float et = Fin (of_int et)" "int_to_float ct = Fin (of_int ct)"
    using x y et ct by (simp_all add: int_to_float_exact)
  have e1: "fsub (Fin (of_int a)) (Fin (of_int et)) = Fin (of_int (a - et))"
    using bnd et by (intro fsub_int_rounded) simp
  have e2: "fadd (Fin (of_int a)) (Fin (of_int et)) = Fin (of_int (a + et))"
    using bnd et by (intro fadd_int_rounded) simp
  have e3: "fadd (Fin (of_int b)) (Fin (of_int ct)) = Fin (of_int (b + ct))"
    using bnd ct by (intro fadd_int_rounded) simp
  have e4: "fadd (Fin (of_int b)) (Fin (of_int (h - 2 * b))) = Fin (of_int (b + (h - 2 * b)))"
    using bnd by (intro fadd_int_rounded) simp
  have e5: "fsub (Fin (of_int (b + (h - 2 * b)))) (Fin (of_int ct)) =
      Fin (of_int (b + (h - 2 * b) - ct))"
    using bnd ct by (intro fsub_int_rounded) simp
  have lb: "left_border s x et"
    using band unfolding left_border_def Let_def bg conv e1 e2 fle.simps of_int_le_iff
    by (auto simp add: x_def et_def a_def)
  have tc: "top_corner s y ct = (y < b + ct)"
    unfolding top_corner_def bg conv e3 flt.simps of_int_less_iff ..
  have bc: "bottom_corner s y ct = (h - b - ct \<le> y)"
    unfolding bottom_corner_def Let_def bg conv e4 e5 fle.simps of_int_le_iff by auto
  have hr: "hit_region s (cursor_pos s p) x y et ct =
      (if y < b + ct then SDL_HITTEST_RESIZE_TOPLEFT
       else if h - b - ct \<le> y then SDL_HITTEST_RESIZE_BOTTOMLEFT
       else SDL_HITTEST_RESIZE_LEFT)"
    unfolding hit_region_def by (simp only: lb tc bc if_True)
  have "hitTest s p = Some (hit_region s (cursor_pos s p) x y et ct)"
    unfolding x_def y_def et_def ct_def
    using scl sc px py by (rule hitTest_defined)
  then have "hitTest s p =
      Some (if y < b + ct then SDL_HITTEST_RESIZE_TOPLEFT
            else if h - b - ct \<le> y then SDL_HITTEST_RESIZE_BOTTOMLEFT
            else SDL_HITTEST_RESIZE_LEFT)"
    by (simp only: hr)
  then show ?thesis
    unfolding s_def x_def y_def et_def ct_def a_def b_def h_def .
qed

theorem left_border_regions_witness:
  "in_exact_range 1 (env_800x600 1) (init_app shadow16) \<and>
   \<bar>pt_x \<lparr>pt_x = 16, pt_y = 0\<rparr>\<bar> \<le> 65536 \<and>
   \<bar>pt_y \<lparr>pt_x = 16, pt_y = 0\<rparr>\<bar> \<le> 65536 \<and>
   \<bar>scaled 1 (pt_x \<lparr>pt_x = 16, pt_y = 0\<rparr>) - tex_w (left (shadow (init_app shadow16)))\<bar>
     \<le> tolerance 2 1 \<and>
   hitTest (updateLayout (env_800x600 1) (init_app shadow16)) \<lparr>pt_x = 16, pt_y = 0\<rparr> =
     Some SDL_HITTEST_RESIZE_TOPLEFT"
proof -
  have v: "scaled 1 16 = 16" "scaled 1 0 = 0" "tolerance 2 1 = 2" "tolerance 8 1 = 8"
    by (simp_all add: scaled_def tolerance_def trunc0_def f32r_Ints)
  have px: "\<bar>pt_x \<lparr>pt_x = 16, pt_y = 0\<rparr>\<bar> \<le> 65536"
    and py: "\<bar>pt_y \<lparr>pt_x = 16, pt_y = 0\<rparr>\<bar> \<le> 65536"
    by simp_all
  have band: "\<bar>scaled 1 (pt_x \<lparr>pt_x = 16, pt_y = 0\<rparr>) -
      tex_w (left (shadow (init_app shadow16)))\<bar> \<le> tolerance 2 1"
    by (simp add: v init_app_def shadow16_def)
  from left_border_regions [OF example_in_range px py band] example_in_range px py band
  show ?thesis by (simp add: v init_app_def shadow16_def)
qed




text \<open>
  C4. \<^verbatim>\<open>hitTest\<close> returns one of the ten regions for every cursor point, every state
  and every result a platform delivers for a conversion that C leaves undefined; it
  returns a region and no state, and the region depends on the state through the
  layout alone. Where C defines the four conversions the region is the one of the
  strict function, which is the case at every finite scale from 0 to 128 and every
  point with coordinates up to \<open>2 ^ 16\<close> in magnitude. The region is the value of the
  \<^verbatim>\<open>if\<close> chain on the converted values, and each region is returned exactly when its
  condition holds and no condition before it does, so that no two regions are returned
  for one point. At scale 2.0 the cursor at \<open>(2 ^ 30, 0)\<close>, whose scaled x is not a value
  of \<^verbatim>\<open>int\<close>, gets \<^verbatim>\<open>SDL_HITTEST_NORMAL\<close> on x86-64.
\<close>

theorem hitTest_total_pure:
  "hitTest_on oor s p \<in>
     {SDL_HITTEST_NORMAL, SDL_HITTEST_DRAGGABLE, SDL_HITTEST_RESIZE_TOPLEFT,
      SDL_HITTEST_RESIZE_TOP, SDL_HITTEST_RESIZE_TOPRIGHT, SDL_HITTEST_RESIZE_RIGHT,
      SDL_HITTEST_RESIZE_BOTTOMRIGHT, SDL_HITTEST_RESIZE_BOTTOM,
      SDL_HITTEST_RESIZE_BOTTOMLEFT, SDL_HITTEST_RESIZE_LEFT} \<and>
   (layout s' = layout s \<longrightarrow> hitTest_on oor s' p = hitTest_on oor s p) \<and>
   (hitTest s p = Some r \<longrightarrow> hitTest_on oor s p = r) \<and>
   (scale (layout s) = Fin sc \<and> 0 \<le> sc \<and> sc \<le> 128 \<and>
    \<bar>pt_x p\<bar> \<le> 65536 \<and> \<bar>pt_y p\<bar> \<le> 65536 \<longrightarrow>
      hitTest s p = Some (hitTest_on oor s p)) \<and>
   hitTest_on oor s p =
     hit_region s (cursor_pos s p)
       (convert oor (fpt_x (cursor_pos s p))) (convert oor (fpt_y (cursor_pos s p)))
       (convert oor (ceilf (fmul (int_to_float 2) (scale (layout s)))))
       (convert oor (ceilf (fmul (int_to_float 8) (scale (layout s))))) \<and>
   (hit_region s pos x y et ct = SDL_HITTEST_RESIZE_TOPLEFT) =
     (left_border s x et \<and> top_corner s y ct) \<and>
   (hit_region s pos x y et ct = SDL_HITTEST_RESIZE_BOTTOMLEFT) =
     (left_border s x et \<and> \<not> top_corner s y ct \<and> bottom_corner s y ct) \<and>
   (hit_region s pos x y et ct = SDL_HITTEST_RESIZE_LEFT) =
     (left_border s x et \<and> \<not> top_corner s y ct \<and> \<not> bottom_corner s y ct) \<and>
   (hit_region s pos x y et ct = SDL_HITTEST_RESIZE_TOPRIGHT) =
     (\<not> left_border s x et \<and> right_border s x et \<and> top_corner s y ct) \<and>
   (hit_region s pos x y et ct = SDL_HITTEST_RESIZE_BOTTOMRIGHT) =
     (\<not> left_border s x et \<and> right_border s x et \<and> \<not> top_corner s y ct \<and>
      bottom_corner s y ct) \<and>
   (hit_region s pos x y et ct = SDL_HITTEST_RESIZE_RIGHT) =
     (\<not> left_border s x et \<and> right_border s x et \<and> \<not> top_corner s y ct \<and>
      \<not> bottom_corner s y ct) \<and>
   (hit_region s pos x y et ct = SDL_HITTEST_RESIZE_TOP) =
     (\<not> left_border s x et \<and> \<not> right_border s x et \<and> top_border s y et) \<and>
   (hit_region s pos x y et ct = SDL_HITTEST_RESIZE_BOTTOM) =
     (\<not> left_border s x et \<and> \<not> right_border s x et \<and> \<not> top_border s y et \<and>
      bottom_border s y et) \<and>
   (hit_region s pos x y et ct = SDL_HITTEST_DRAGGABLE) =
     (\<not> left_border s x et \<and> \<not> right_border s x et \<and> \<not> top_border s y et \<and>
      \<not> bottom_border s y et \<and> SDL_PointInRectFloat pos (titleBar (layout s))) \<and>
   (hit_region s pos x y et ct = SDL_HITTEST_NORMAL) =
     (\<not> left_border s x et \<and> \<not> right_border s x et \<and> \<not> top_border s y et \<and>
      \<not> bottom_border s y et \<and> \<not> SDL_PointInRectFloat pos (titleBar (layout s))) \<and>
   hitTest_on int_indefinite (app_800x600 2) \<lparr>pt_x = 1073741824, pt_y = 0\<rparr> =
     SDL_HITTEST_NORMAL"
proof -
  have one: "hitTest_on oor s p \<in>
     {SDL_HITTEST_NORMAL, SDL_HITTEST_DRAGGABLE, SDL_HITTEST_RESIZE_TOPLEFT,
      SDL_HITTEST_RESIZE_TOP, SDL_HITTEST_RESIZE_TOPRIGHT, SDL_HITTEST_RESIZE_RIGHT,
      SDL_HITTEST_RESIZE_BOTTOMRIGHT, SDL_HITTEST_RESIZE_BOTTOM,
      SDL_HITTEST_RESIZE_BOTTOMLEFT, SDL_HITTEST_RESIZE_LEFT}"
    by (cases "hitTest_on oor s p") simp_all
  have pure: "layout s' = layout s \<longrightarrow> hitTest_on oor s' p = hitTest_on oor s p"
    using hitTest_on_layout [of s' s oor p] by blast
  have strict: "hitTest s p = Some r \<longrightarrow> hitTest_on oor s p = r"
    using hitTest_on_Some [of s p r oor] by blast
  have inrange: "scale (layout s) = Fin sc \<and> 0 \<le> sc \<and> sc \<le> 128 \<and>
      \<bar>pt_x p\<bar> \<le> 65536 \<and> \<bar>pt_y p\<bar> \<le> 65536 \<longrightarrow>
      hitTest s p = Some (hitTest_on oor s p)"
    using hitTest_defined [of s sc p] hitTest_on_Some [of s p _ oor] by metis
  have chain: "hitTest_on oor s p =
     hit_region s (cursor_pos s p)
       (convert oor (fpt_x (cursor_pos s p))) (convert oor (fpt_y (cursor_pos s p)))
       (convert oor (ceilf (fmul (int_to_float 2) (scale (layout s)))))
       (convert oor (ceilf (fmul (int_to_float 8) (scale (layout s)))))"
    by (simp add: hitTest_on_def Let_def)
  show ?thesis
    using one pure strict inrange chain far_point_region
    by (simp only: hit_region_precedence simp_thms)
qed

theorem hitTest_total_pure_witness:
  "layout ((app_800x600 1)\<lparr>windowShouldBeRedrawn := False\<rparr>) = layout (app_800x600 1) \<and>
   hitTest_on int_indefinite ((app_800x600 1)\<lparr>windowShouldBeRedrawn := False\<rparr>)
     \<lparr>pt_x = 8, pt_y = 8\<rparr> = SDL_HITTEST_NORMAL \<and>
   hitTest (app_800x600 1) \<lparr>pt_x = 8, pt_y = 8\<rparr> = Some SDL_HITTEST_NORMAL \<and>
   hitTest_on int_indefinite (app_800x600 1) \<lparr>pt_x = 8, pt_y = 8\<rparr> = SDL_HITTEST_NORMAL \<and>
   scale (layout (app_800x600 1)) = Fin 1 \<and> (0 :: real) \<le> 1 \<and> (1 :: real) \<le> 128 \<and>
   \<bar>pt_x \<lparr>pt_x = 8, pt_y = 8\<rparr>\<bar> \<le> 65536 \<and> \<bar>pt_y \<lparr>pt_x = 8, pt_y = 8\<rparr>\<bar> \<le> 65536"
  using hitTest_total_pure [of int_indefinite "app_800x600 1" "\<lparr>pt_x = 8, pt_y = 8\<rparr>"
      "(app_800x600 1)\<lparr>windowShouldBeRedrawn := False\<rparr>" SDL_HITTEST_NORMAL 1]
    hitTest_at_8_8
  by (simp add: layout_800x600_1)

end
